theory Spec2Isabelle
  imports Complex_Main "HOL-Library.AList"
begin

section \<open>Values and exceptions\<close>

text \<open>
  The forecasting demo under \<^verbatim>\<open>src/ecommerce_sales_forecasting\<close> computes on
  numpy arrays of 64-bit floats. A float is modelled by \<open>fl\<close>: a finite value is a
  real number (rounding and overflow are not modelled), and the three special values
  are kept, because numpy answers a division by zero with an infinity or with NaN
  instead of raising. Zero carries no sign, so the sign of an infinite quotient by
  zero follows the numerator only.
\<close>

datatype fl = Fin real | PInf | NInf | NaN

text \<open>The Python exceptions that the modelled code and its libraries raise.\<close>

datatype error = ValueError | KeyError | LinAlgError

fun fl_sub :: "fl \<Rightarrow> fl \<Rightarrow> fl" where
  "fl_sub (Fin a) (Fin b) = Fin (a - b)"
| "fl_sub NaN _ = NaN"
| "fl_sub _ NaN = NaN"
| "fl_sub PInf PInf = NaN"
| "fl_sub NInf NInf = NaN"
| "fl_sub PInf _ = PInf"
| "fl_sub NInf _ = NInf"
| "fl_sub (Fin a) PInf = NInf"
| "fl_sub (Fin a) NInf = PInf"

fun fl_add :: "fl \<Rightarrow> fl \<Rightarrow> fl" where
  "fl_add (Fin a) (Fin b) = Fin (a + b)"
| "fl_add NaN _ = NaN"
| "fl_add _ NaN = NaN"
| "fl_add PInf NInf = NaN"
| "fl_add NInf PInf = NaN"
| "fl_add PInf _ = PInf"
| "fl_add NInf _ = NInf"
| "fl_add (Fin a) PInf = PInf"
| "fl_add (Fin a) NInf = NInf"

fun fl_div :: "fl \<Rightarrow> fl \<Rightarrow> fl" where
  "fl_div (Fin a) (Fin b) =
     (if b \<noteq> 0 then Fin (a / b)
      else if a = 0 then NaN
      else if 0 < a then PInf else NInf)"
| "fl_div NaN _ = NaN"
| "fl_div _ NaN = NaN"
| "fl_div (Fin a) PInf = Fin 0"
| "fl_div (Fin a) NInf = Fin 0"
| "fl_div PInf (Fin b) = (if 0 \<le> b then PInf else NInf)"
| "fl_div NInf (Fin b) = (if 0 \<le> b then NInf else PInf)"
| "fl_div PInf _ = NaN"
| "fl_div NInf _ = NaN"

fun fl_mul :: "fl \<Rightarrow> fl \<Rightarrow> fl" where
  "fl_mul (Fin a) (Fin b) = Fin (a * b)"
| "fl_mul NaN _ = NaN"
| "fl_mul _ NaN = NaN"
| "fl_mul PInf (Fin b) = (if b = 0 then NaN else if 0 < b then PInf else NInf)"
| "fl_mul NInf (Fin b) = (if b = 0 then NaN else if 0 < b then NInf else PInf)"
| "fl_mul (Fin a) PInf = (if a = 0 then NaN else if 0 < a then PInf else NInf)"
| "fl_mul (Fin a) NInf = (if a = 0 then NaN else if 0 < a then NInf else PInf)"
| "fl_mul PInf PInf = PInf"
| "fl_mul NInf NInf = PInf"
| "fl_mul PInf NInf = NInf"
| "fl_mul NInf PInf = NInf"

fun fl_abs :: "fl \<Rightarrow> fl" where
  "fl_abs (Fin a) = Fin \<bar>a\<bar>"
| "fl_abs PInf = PInf"
| "fl_abs NInf = PInf"
| "fl_abs NaN = NaN"

fun fl_sqrt :: "fl \<Rightarrow> fl" where
  "fl_sqrt (Fin a) = (if a < 0 then NaN else Fin (sqrt a))"
| "fl_sqrt PInf = PInf"
| "fl_sqrt NInf = NaN"
| "fl_sqrt NaN = NaN"

text \<open>\<open>x < y\<close> on floats: every comparison with NaN is false.\<close>

fun fl_lt :: "fl \<Rightarrow> fl \<Rightarrow> bool" where
  "fl_lt (Fin a) (Fin b) = (a < b)"
| "fl_lt NaN _ = False"
| "fl_lt _ NaN = False"
| "fl_lt _ NInf = False"
| "fl_lt PInf _ = False"
| "fl_lt NInf _ = True"
| "fl_lt (Fin a) PInf = True"

fun is_finite :: "fl \<Rightarrow> bool" where
  "is_finite (Fin a) = True"
| "is_finite _ = False"

text \<open>A float that is a number at least zero (\<open>+inf\<close> included, NaN not).\<close>

fun fl_nonneg :: "fl \<Rightarrow> bool" where
  "fl_nonneg (Fin a) = (0 \<le> a)"
| "fl_nonneg PInf = True"
| "fl_nonneg _ = False"

section \<open>numpy: element-wise arithmetic and the mean\<close>

text \<open>
  A binary operation on two one-dimensional arrays broadcasts: equal lengths pair
  the elements by position, an array of length one is repeated, and any other pair
  of lengths raises \<^verbatim>\<open>ValueError\<close>.
\<close>

definition np_binop :: "(fl \<Rightarrow> fl \<Rightarrow> fl) \<Rightarrow> fl list \<Rightarrow> fl list \<Rightarrow> error + fl list" where
  "np_binop f xs ys =
     (if length xs = length ys then Inr (map2 f xs ys)
      else if length xs = 1 then Inr (map (f (hd xs)) ys)
      else if length ys = 1 then Inr (map (\<lambda>x. f x (hd ys)) xs)
      else Inl ValueError)"

definition np_sum :: "fl list \<Rightarrow> fl" where
  "np_sum xs = foldl fl_add (Fin 0) xs"

text \<open>\<^verbatim>\<open>np.mean\<close> divides the sum by the count; on an empty array this is 0/0, NaN.\<close>

definition np_mean :: "fl list \<Rightarrow> fl" where
  "np_mean xs = fl_div (np_sum xs) (Fin (real (length xs)))"

section \<open>evaluate.py\<close>

text \<open>
  \<^verbatim>\<open>return np.mean(np.abs((y_true - y_pred) / y_true)) * 100\<close>
\<close>

definition calculate_mape :: "fl list \<Rightarrow> fl list \<Rightarrow> error + fl" where
  "calculate_mape y_true y_pred =
     (case np_binop fl_sub y_true y_pred of
        Inl e \<Rightarrow> Inl e
      | Inr diff \<Rightarrow>
          (case np_binop fl_div diff y_true of
             Inl e \<Rightarrow> Inl e
           | Inr quot \<Rightarrow> Inr (fl_mul (np_mean (map fl_abs quot)) (Fin 100))))"

text \<open>
  scikit-learn's regression metrics validate their arguments first: the two arrays
  must have the same number of samples, at least one sample, and only finite
  entries; otherwise \<^verbatim>\<open>ValueError\<close> is raised.
\<close>

definition check_reg_targets :: "fl list \<Rightarrow> fl list \<Rightarrow> bool" where
  "check_reg_targets y_true y_pred \<longleftrightarrow>
     length y_true = length y_pred \<and> y_true \<noteq> [] \<and>
     list_all is_finite y_true \<and> list_all is_finite y_pred"

definition mean_absolute_error :: "fl list \<Rightarrow> fl list \<Rightarrow> error + fl" where
  "mean_absolute_error y_true y_pred =
     (if check_reg_targets y_true y_pred
      then Inr (np_mean (map fl_abs (map2 fl_sub y_pred y_true)))
      else Inl ValueError)"

definition mean_squared_error :: "fl list \<Rightarrow> fl list \<Rightarrow> error + fl" where
  "mean_squared_error y_true y_pred =
     (if check_reg_targets y_true y_pred
      then Inr (np_mean (map (\<lambda>x. fl_mul x x) (map2 fl_sub y_true y_pred)))
      else Inl ValueError)"

record metrics =
  MAE :: fl
  RMSE :: fl
  MAPE :: fl

definition evaluate_forecast :: "fl list \<Rightarrow> fl list \<Rightarrow> error + metrics" where
  "evaluate_forecast actual predicted =
     (case mean_absolute_error actual predicted of
        Inl e \<Rightarrow> Inl e
      | Inr mae \<Rightarrow>
          (case mean_squared_error actual predicted of
             Inl e \<Rightarrow> Inl e
           | Inr mse \<Rightarrow>
               (case calculate_mape actual predicted of
                  Inl e \<Rightarrow> Inl e
                | Inr mape \<Rightarrow> Inr \<lparr>MAE = mae, RMSE = fl_sqrt mse, MAPE = mape\<rparr>)))"

text \<open>
  Python's slice bounds: a negative bound counts from the end, and both bounds are
  clamped to the sequence. \<open>py_slice_to xs j\<close> is \<^verbatim>\<open>xs[:j]\<close> and
  \<open>py_slice_from xs i\<close> is \<^verbatim>\<open>xs[i:]\<close>.
\<close>

definition py_bound :: "nat \<Rightarrow> int \<Rightarrow> nat" where
  "py_bound n i = (if i < 0 then nat (max 0 (int n + i)) else min (nat i) n)"

definition py_slice_to :: "'a list \<Rightarrow> int \<Rightarrow> 'a list" where
  "py_slice_to xs j = take (py_bound (length xs) j) xs"

definition py_slice_from :: "'a list \<Rightarrow> int \<Rightarrow> 'a list" where
  "py_slice_from xs i = drop (py_bound (length xs) i) xs"

text \<open>
  A monthly data frame with the single column \<^verbatim>\<open>sales\<close>: one pair (month, value)
  per row, the month-end index label being the month's number
  \<open>12 * year + (month - 1)\<close>. The values read from the sales table are finite.
\<close>

type_synonym frame = "(nat \<times> real) list"

text \<open>The forecast frame of Prophet, with the columns the code reads.\<close>

record prow =
  ds :: nat
  yhat :: fl
  yhat_lower :: fl
  yhat_upper :: fl

record 'k comparison =
  Product_Category :: 'k
  ARIMA_MAE :: fl
  ARIMA_RMSE :: fl
  ARIMA_MAPE :: fl
  Prophet_MAE :: fl
  Prophet_RMSE :: fl
  Prophet_MAPE :: fl

text \<open>
  \<^verbatim>\<open>compare_models\<close>: the loop over \<^verbatim>\<open>arima_forecasts.keys()\<close>, with
  \<^verbatim>\<open>results\<close> as the accumulator. A dictionary is an association list in
  insertion order (its keys are distinct, so the loop runs over the pairs of key and
  \<^verbatim>\<open>arima_forecasts[key]\<close>). \<^verbatim>\<open>prophet_forecasts[key]\<close> raises \<^verbatim>\<open>KeyError\<close> on
  a missing key.
\<close>

fun compare_models_loop ::
  "('k \<times> fl list) list \<Rightarrow> ('k \<times> prow list) list \<Rightarrow>
   ('k \<times> frame) list \<Rightarrow> 'k comparison list \<Rightarrow> error + 'k comparison list" where
  "compare_models_loop [] prophet_forecasts test_data results = Inr results"
| "compare_models_loop ((key, arima_pred) # items) prophet_forecasts test_data results =
     (case map_of test_data key of
        None \<Rightarrow> compare_models_loop items prophet_forecasts test_data results
      | Some test \<Rightarrow>
          (case map_of prophet_forecasts key of
             None \<Rightarrow> Inl KeyError
           | Some prophet_frame \<Rightarrow>
               (let actual = map (Fin \<circ> snd) test;
                    prophet_pred = py_slice_from (map yhat prophet_frame) (- int (length arima_pred))
                in case evaluate_forecast actual arima_pred of
                     Inl e \<Rightarrow> Inl e
                   | Inr arima_metrics \<Rightarrow>
                       (case evaluate_forecast actual prophet_pred of
                          Inl e \<Rightarrow> Inl e
                        | Inr prophet_metrics \<Rightarrow>
                            compare_models_loop items prophet_forecasts test_data
                              (results @
                               [\<lparr>Product_Category = key,
                                 ARIMA_MAE = MAE arima_metrics,
                                 ARIMA_RMSE = RMSE arima_metrics,
                                 ARIMA_MAPE = MAPE arima_metrics,
                                 Prophet_MAE = MAE prophet_metrics,
                                 Prophet_RMSE = RMSE prophet_metrics,
                                 Prophet_MAPE = MAPE prophet_metrics\<rparr>])))))"

definition compare_models ::
  "('k \<times> fl list) list \<Rightarrow> ('k \<times> prow list) list \<Rightarrow> ('k \<times> frame) list \<Rightarrow>
   error + 'k comparison list" where
  "compare_models arima_forecasts prophet_forecasts test_data =
     compare_models_loop arima_forecasts prophet_forecasts test_data []"

section \<open>arima_model.py\<close>

text \<open>
  statsmodels is a library outside the repository: its three entry points are
  parameters of the model. \<open>adfuller\<close> gives the p-value (\<^verbatim>\<open>result[1]\<close>) of the
  augmented Dickey-Fuller test or raises; \<open>ARIMA_fit\<close> is
  \<^verbatim>\<open>ARIMA(series, order=order).fit()\<close>; \<open>ARIMA_forecast\<close> is
  \<^verbatim>\<open>model.forecast(steps=steps)\<close>. A series is given by its values.
\<close>

record 'm statsmodels =
  adfuller :: "real list \<Rightarrow> error + fl"
  ARIMA_fit :: "real list \<Rightarrow> int \<times> int \<times> int \<Rightarrow> error + 'm"
  ARIMA_forecast :: "'m \<Rightarrow> int \<Rightarrow> error + fl list"

definition check_stationarity :: "'m statsmodels \<Rightarrow> real list \<Rightarrow> error + bool" where
  "check_stationarity lib series =
     (case adfuller lib series of
        Inl e \<Rightarrow> Inl e
      | Inr p \<Rightarrow> Inr (fl_lt p (Fin 0.05)))"

text \<open>
  \<^verbatim>\<open>series.diff().dropna()\<close>: the differences of neighbours; the first row, which
  has no predecessor, is NaN and is dropped.
\<close>

definition diff_dropna :: "real list \<Rightarrow> real list" where
  "diff_dropna series = map2 (\<lambda>x y. x - y) (tl series) series"

text \<open>
  The \<^verbatim>\<open>while\<close> loop of \<^verbatim>\<open>make_stationary\<close>. The stationarity test is the left
  operand of \<^verbatim>\<open>and\<close>, so it runs (and may raise) on every round, the last included.
\<close>

function make_stationary_loop ::
  "'m statsmodels \<Rightarrow> int \<Rightarrow> real list \<Rightarrow> int \<Rightarrow> error + (real list \<times> int)" where
  "make_stationary_loop lib max_diff series d =
     (case check_stationarity lib series of
        Inl e \<Rightarrow> Inl e
      | Inr stationary \<Rightarrow>
          (if \<not> stationary \<and> d < max_diff
           then make_stationary_loop lib max_diff (diff_dropna series) (d + 1)
           else Inr (series, d)))"
  by pat_completeness auto
termination
  by (relation "measure (\<lambda>(lib, max_diff, series, d). nat (max_diff - d))") auto

declare make_stationary_loop.simps [simp del]

definition make_stationary ::
  "'m statsmodels \<Rightarrow> real list \<Rightarrow> int \<Rightarrow> error + (real list \<times> int)" where
  "make_stationary lib series max_diff = make_stationary_loop lib max_diff series 0"

definition train_arima :: "'m statsmodels \<Rightarrow> real list \<Rightarrow> int \<times> int \<times> int \<Rightarrow> error + 'm" where
  "train_arima lib series order = ARIMA_fit lib series order"

definition forecast_arima :: "'m statsmodels \<Rightarrow> 'm \<Rightarrow> int \<Rightarrow> error + fl list" where
  "forecast_arima lib model steps = ARIMA_forecast lib model steps"

text \<open>The body of the \<^verbatim>\<open>for\<close> loop of \<^verbatim>\<open>arima_pipeline\<close>, for one entity.\<close>

definition arima_pipeline_body :: "'m statsmodels \<Rightarrow> frame \<Rightarrow> int \<Rightarrow> error + fl list" where
  "arima_pipeline_body lib df forecast_steps =
     (let series = map snd df in
      case make_stationary lib series 2 of
        Inl e \<Rightarrow> Inl e
      | Inr (stationary_series, d) \<Rightarrow>
          (case train_arima lib stationary_series (1, d, 1) of
             Inl e \<Rightarrow> Inl e
           | Inr model \<Rightarrow> forecast_arima lib model forecast_steps))"

fun arima_pipeline_loop ::
  "'m statsmodels \<Rightarrow> ('k \<times> frame) list \<Rightarrow> int \<Rightarrow> ('k \<times> fl list) list \<Rightarrow>
   error + ('k \<times> fl list) list" where
  "arima_pipeline_loop lib [] forecast_steps forecasts = Inr forecasts"
| "arima_pipeline_loop lib ((key, df) # items) forecast_steps forecasts =
     (case arima_pipeline_body lib df forecast_steps of
        Inl e \<Rightarrow> Inl e
      | Inr fc \<Rightarrow>
          arima_pipeline_loop lib items forecast_steps (AList.update key fc forecasts))"

definition arima_pipeline ::
  "'m statsmodels \<Rightarrow> ('k \<times> frame) list \<Rightarrow> int \<Rightarrow> error + ('k \<times> fl list) list" where
  "arima_pipeline lib train_data_dict forecast_steps =
     arima_pipeline_loop lib train_data_dict forecast_steps []"

section \<open>prophet_model.py\<close>

text \<open>
  Prophet is a library outside the repository as well: \<open>Prophet_fit\<close> is
  \<^verbatim>\<open>Prophet().fit\<close> on the frame with columns \<^verbatim>\<open>ds\<close> and \<^verbatim>\<open>y\<close>,
  \<open>make_future_dataframe\<close> gives the dates to predict, and \<open>predict\<close> the forecast
  frame.
\<close>

record 'p prophet =
  Prophet_fit :: "frame \<Rightarrow> error + 'p"
  make_future_dataframe :: "'p \<Rightarrow> int \<Rightarrow> error + nat list"
  predict :: "'p \<Rightarrow> nat list \<Rightarrow> error + prow list"

definition train_prophet :: "'p prophet \<Rightarrow> frame \<Rightarrow> error + 'p" where
  "train_prophet lib df = Prophet_fit lib df"

definition forecast_prophet :: "'p prophet \<Rightarrow> 'p \<Rightarrow> int \<Rightarrow> error + prow list" where
  "forecast_prophet lib model periods =
     (case make_future_dataframe lib model periods of
        Inl e \<Rightarrow> Inl e
      | Inr future \<Rightarrow> predict lib model future)"

fun prophet_pipeline_loop ::
  "'p prophet \<Rightarrow> ('k \<times> frame) list \<Rightarrow> int \<Rightarrow> ('k \<times> prow list) list \<Rightarrow>
   error + ('k \<times> prow list) list" where
  "prophet_pipeline_loop lib [] forecast_steps forecasts = Inr forecasts"
| "prophet_pipeline_loop lib ((key, df) # items) forecast_steps forecasts =
     (case train_prophet lib df of
        Inl e \<Rightarrow> Inl e
      | Inr model \<Rightarrow>
          (case forecast_prophet lib model forecast_steps of
             Inl e \<Rightarrow> Inl e
           | Inr fc \<Rightarrow>
               prophet_pipeline_loop lib items forecast_steps (AList.update key fc forecasts)))"

definition prophet_pipeline ::
  "'p prophet \<Rightarrow> ('k \<times> frame) list \<Rightarrow> int \<Rightarrow> error + ('k \<times> prow list) list" where
  "prophet_pipeline lib train_data_dict forecast_steps =
     prophet_pipeline_loop lib train_data_dict forecast_steps []"

section \<open>preprocess.py\<close>

record date =
  year :: nat
  month :: nat
  day :: nat

definition month_no :: "date \<Rightarrow> nat" where
  "month_no d = 12 * year d + (month d - 1)"

text \<open>The chronological position of a calendar date, the key of \<^verbatim>\<open>sort_values('date')\<close>.\<close>

definition date_ord :: "date \<Rightarrow> nat" where
  "date_ord d = 31 * month_no d + (day d - 1)"

record sales_row =
  date :: date
  product_id :: int
  category :: string
  sales :: real
  price :: real
  promotion_flag :: int

text \<open>
  \<^verbatim>\<open>df.groupby(group_by)\<close>: the groups in ascending order of their key, each with its
  rows in table order. The column to group by is the function \<open>group_by\<close>.
\<close>

definition groupby :: "(sales_row \<Rightarrow> 'k::linorder) \<Rightarrow> sales_row list \<Rightarrow> ('k \<times> sales_row list) list" where
  "groupby group_by df =
     map (\<lambda>name. (name, filter (\<lambda>r. group_by r = name) df)) (sort (remdups (map group_by df)))"

text \<open>
  \<^verbatim>\<open>group.resample('M').sum()[['sales']]\<close> on a date-sorted group: one row for every
  month from the first row's month to the last row's, an empty month summing to 0.
\<close>

definition resample_sum :: "sales_row list \<Rightarrow> frame" where
  "resample_sum grp =
     (if grp = [] then []
      else map (\<lambda>m. (m, sum_list (map sales (filter (\<lambda>r. month_no (date r) = m) grp))))
             [month_no (date (hd grp)) ..< Suc (month_no (date (last grp)))])"

definition monthly_sales :: "sales_row list \<Rightarrow> frame" where
  "monthly_sales grp = resample_sum (sort_key (\<lambda>r. date_ord (date r)) grp)"

fun preprocess_data_loop ::
  "('k \<times> sales_row list) list \<Rightarrow> int \<Rightarrow> ('k \<times> frame) list \<Rightarrow> ('k \<times> frame) list \<Rightarrow>
   ('k \<times> frame) list \<times> ('k \<times> frame) list" where
  "preprocess_data_loop [] test_size train_data test_data = (train_data, test_data)"
| "preprocess_data_loop ((name, grp) # groups) test_size train_data test_data =
     (let monthly = monthly_sales grp;
          train = py_slice_to monthly (- test_size);
          test = py_slice_from monthly (- test_size)
      in preprocess_data_loop groups test_size
           (AList.update name train train_data) (AList.update name test test_data))"

definition preprocess_data ::
  "sales_row list \<Rightarrow> (sales_row \<Rightarrow> 'k::linorder) \<Rightarrow> int \<Rightarrow> ('k \<times> frame) list \<times> ('k \<times> frame) list" where
  "preprocess_data df group_by test_size =
     preprocess_data_loop (groupby group_by df) test_size [] []"

section \<open>generate_data.py\<close>

text \<open>
  The draws of \<^verbatim>\<open>np.random\<close> are calls of a random source with an explicit state
  \<open>'s\<close>; nothing is assumed about the values it returns. \<^verbatim>\<open>randint(low, high)\<close>
  raises \<^verbatim>\<open>ValueError\<close> when \<open>high \<le> low\<close>. \<open>choice\<close> is
  \<^verbatim>\<open>np.random.choice([0, 1], p=[0.9, 0.1])\<close>.
\<close>

record 's np_random =
  randint :: "int \<Rightarrow> int \<Rightarrow> 's \<Rightarrow> int \<times> 's"
  uniform :: "real \<Rightarrow> real \<Rightarrow> 's \<Rightarrow> real \<times> 's"
  normal :: "real \<Rightarrow> real \<Rightarrow> 's \<Rightarrow> real \<times> 's"
  choice :: "'s \<Rightarrow> int \<times> 's"

text \<open>Python's \<^verbatim>\<open>int(x)\<close> on a finite float: truncation towards zero.\<close>

definition py_int :: "real \<Rightarrow> int" where
  "py_int x = (if 0 \<le> x then \<lfloor>x\<rfloor> else \<lceil>x\<rceil>)"

fun digits :: "nat \<Rightarrow> string" where
  "digits n = (if n < 10 then [char_of (48 + n)] else digits (n div 10) @ [char_of (48 + n mod 10)])"

definition str_int :: "int \<Rightarrow> string" where
  "str_int i = (if i < 0 then CHR ''-'' # digits (nat (- i)) else digits (nat i))"

text \<open>
  One round of the inner loop over the dates. \<open>days_since d\<close> is
  \<^verbatim>\<open>(date - start).days\<close>.
\<close>

definition generate_row ::
  "'s np_random \<Rightarrow> (date \<Rightarrow> int) \<Rightarrow> int \<Rightarrow> string \<Rightarrow> int \<Rightarrow> real \<Rightarrow> real \<Rightarrow> date \<Rightarrow> 's \<Rightarrow>
   sales_row \<times> 's" where
  "generate_row rng days_since pid cat base_sales trend seasonality d st =
     (let seasonal_factor = seasonality + 0.1 * sin (2 * pi * real (month d) / 12);
          time_factor = 1 + trend * (real_of_int (days_since d) / 365);
          (noise, st1) = normal rng 0 0.1 st;
          (promotion, st2) = choice rng st1;
          sales_val = py_int (real_of_int base_sales * seasonal_factor * time_factor * (1 + noise)
                              * (if promotion \<noteq> 0 then 1.2 else 1));
          (price_val, st3) = uniform rng 10 500 st2
      in (\<lparr>date = d, product_id = pid, category = cat,
           sales = real_of_int (max 0 sales_val), price = price_val,
           promotion_flag = promotion\<rparr>, st3))"

fun generate_dates_loop ::
  "'s np_random \<Rightarrow> (date \<Rightarrow> int) \<Rightarrow> int \<Rightarrow> string \<Rightarrow> int \<Rightarrow> real \<Rightarrow> real \<Rightarrow> date list \<Rightarrow> 's \<Rightarrow>
   sales_row list \<Rightarrow> sales_row list \<times> 's" where
  "generate_dates_loop rng days_since pid cat base_sales trend seasonality [] st data = (data, st)"
| "generate_dates_loop rng days_since pid cat base_sales trend seasonality (d # dates) st data =
     (let (row, st') = generate_row rng days_since pid cat base_sales trend seasonality d st
      in generate_dates_loop rng days_since pid cat base_sales trend seasonality dates st'
           (data @ [row]))"

fun generate_products_loop ::
  "'s np_random \<Rightarrow> (date \<Rightarrow> int) \<Rightarrow> int \<Rightarrow> date list \<Rightarrow> int list \<Rightarrow> 's \<Rightarrow> sales_row list \<Rightarrow>
   error + (sales_row list \<times> 's)" where
  "generate_products_loop rng days_since num_categories dates [] st data = Inr (data, st)"
| "generate_products_loop rng days_since num_categories dates (pid # pids) st data =
     (if num_categories + 1 \<le> 1 then Inl ValueError
      else
        (let (c, st1) = randint rng 1 (num_categories + 1) st;
             cat = ''Category_'' @ str_int c;
             (base_sales, st2) = randint rng 100 1000 st1;
             (trend, st3) = uniform rng (- 0.05) 0.05 st2;
             (seasonality, st4) = uniform rng 0.8 1.2 st3;
             (data', st5) = generate_dates_loop rng days_since pid cat base_sales trend
                              seasonality dates st4 data
         in generate_products_loop rng days_since num_categories dates pids st5 data'))"

text \<open>
  \<^verbatim>\<open>generate_synthetic_sales_data\<close>. The month-end dates
  \<^verbatim>\<open>pd.date_range(start, end, freq='M')\<close> and the day count from the start date are
  computed by pandas and \<^verbatim>\<open>datetime\<close>; they are the parameters \<open>dates\<close> and
  \<open>days_since\<close> that stand for \<^verbatim>\<open>start_date\<close> and \<^verbatim>\<open>end_date\<close>.
\<close>

definition generate_synthetic_sales_data ::
  "'s np_random \<Rightarrow> int \<Rightarrow> int \<Rightarrow> date list \<Rightarrow> (date \<Rightarrow> int) \<Rightarrow> 's \<Rightarrow>
   error + (sales_row list \<times> 's)" where
  "generate_synthetic_sales_data rng num_products num_categories dates days_since st =
     generate_products_loop rng days_since num_categories dates [1 .. num_products] st []"

section \<open>main.py\<close>

text \<open>
  Steps 2 to 5 of \<^verbatim>\<open>main\<close> on a sales table: preprocess, forecast with both
  models, compare. Printing and plotting are left out.
\<close>

definition forecast_and_compare ::
  "'m statsmodels \<Rightarrow> 'p prophet \<Rightarrow> sales_row list \<Rightarrow> error + int comparison list" where
  "forecast_and_compare alib plib df =
     (let (train_data, test_data) = preprocess_data df product_id 12 in
      case arima_pipeline alib train_data 12 of
        Inl e \<Rightarrow> Inl e
      | Inr arima_forecasts \<Rightarrow>
          (case prophet_pipeline plib train_data 12 of
             Inl e \<Rightarrow> Inl e
           | Inr prophet_forecasts \<Rightarrow> compare_models arima_forecasts prophet_forecasts test_data))"

section \<open>The differencing loop as the specification words it\<close>

text \<open>
  The specification says that differencing goes on \<^emph>\<open>while the test rejects the
  null of non-stationarity\<close>, that is while the p-value is below 0.05. This is that
  reading, to be compared with \<open>make_stationary\<close>.
\<close>

function make_stationary_spec_loop ::
  "'m statsmodels \<Rightarrow> int \<Rightarrow> real list \<Rightarrow> int \<Rightarrow> error + (real list \<times> int)" where
  "make_stationary_spec_loop lib max_diff series d =
     (case adfuller lib series of
        Inl e \<Rightarrow> Inl e
      | Inr p \<Rightarrow>
          (if fl_lt p (Fin 0.05) \<and> d < max_diff
           then make_stationary_spec_loop lib max_diff (diff_dropna series) (d + 1)
           else Inr (series, d)))"
  by pat_completeness auto
termination
  by (relation "measure (\<lambda>(lib, max_diff, series, d). nat (max_diff - d))") auto

declare make_stationary_spec_loop.simps [simp del]

definition make_stationary_spec ::
  "'m statsmodels \<Rightarrow> real list \<Rightarrow> int \<Rightarrow> error + (real list \<times> int)" where
  "make_stationary_spec lib series max_diff = make_stationary_spec_loop lib max_diff series 0"

section \<open>A stand-in for statsmodels, for concrete runs\<close>

text \<open>
  A deterministic stand-in used only to run the code on concrete inputs. The test
  raises on fewer than two points, reports the p-value 0.5 on three points or more
  and 0.01 on two. Fitting raises on a constant series and otherwise records the
  series and the order it was given; the forecast repeats the last fitted value.
\<close>

definition stub_adfuller :: "real list \<Rightarrow> error + fl" where
  "stub_adfuller series =
     (if length series < 2 then Inl ValueError
      else if 3 \<le> length series then Inr (Fin 0.5)
      else Inr (Fin 0.01))"

definition stub_fit :: "real list \<Rightarrow> int \<times> int \<times> int \<Rightarrow> error + (real list \<times> int \<times> int \<times> int)" where
  "stub_fit series order =
     (if length (remdups series) \<le> 1 then Inl LinAlgError else Inr (series, order))"

definition stub_forecast :: "real list \<times> int \<times> int \<times> int \<Rightarrow> int \<Rightarrow> error + fl list" where
  "stub_forecast model steps =
     (if steps < 1 then Inl ValueError else Inr (replicate (nat steps) (Fin (last (fst model)))))"

definition stub_statsmodels :: "(real list \<times> int \<times> int \<times> int) statsmodels" where
  "stub_statsmodels =
     \<lparr>adfuller = stub_adfuller, ARIMA_fit = stub_fit, ARIMA_forecast = stub_forecast\<rparr>"

text \<open>Two training frames of three months: constant sales, and growing sales.\<close>

definition constant_frame :: frame where
  "constant_frame = [(0, 3), (1, 3), (2, 3)]"

definition growing_frame :: frame where
  "growing_frame = [(0, 1), (1, 2), (2, 4)]"

text \<open>
  A stand-in for \<^verbatim>\<open>np.random\<close>, for concrete runs: every draw returns the lower
  bound (or the mean, or no promotion), and the state counts the draws.
\<close>

definition stub_random :: "nat np_random" where
  "stub_random =
     \<lparr>randint = (\<lambda>low high st. (low, Suc st)),
      uniform = (\<lambda>low high st. (low, Suc st)),
      normal = (\<lambda>loc scale st. (loc, Suc st)),
      choice = (\<lambda>st. (0, Suc st))\<rparr>"

text \<open>
  A small sales table for concrete runs: product 1 with four rows out of date order
  (two in January 2020, none in March), product 2 with one row.
\<close>

definition demo_row :: "nat \<Rightarrow> nat \<Rightarrow> nat \<Rightarrow> int \<Rightarrow> real \<Rightarrow> sales_row" where
  "demo_row y m d pid s =
     \<lparr>date = \<lparr>year = y, month = m, day = d\<rparr>, product_id = pid, category = ''Category_1'',
      sales = s, price = 10, promotion_flag = 0\<rparr>"

definition demo_table :: "sales_row list" where
  "demo_table =
     [demo_row 2020 2 29 1 4, demo_row 2020 1 31 1 3, demo_row 2020 1 15 2 9,
      demo_row 2020 4 30 1 7, demo_row 2020 1 20 1 2]"

section \<open>The comparison, entity by entity\<close>

text \<open>
  The three metrics as position-wise formulas, the value of \<open>evaluate_forecast\<close>
  on arrays that pass scikit-learn's validation.
\<close>

definition metrics_of :: "fl list \<Rightarrow> fl list \<Rightarrow> metrics" where
  "metrics_of actual predicted =
     \<lparr>MAE = np_mean (map fl_abs (map2 fl_sub predicted actual)),
      RMSE = fl_sqrt (np_mean (map (\<lambda>x. fl_mul x x) (map2 fl_sub actual predicted))),
      MAPE = fl_mul (np_mean (map fl_abs (map2 fl_div (map2 fl_sub actual predicted) actual)))
               (Fin 100)\<rparr>"

text \<open>
  The arrays \<open>compare_models\<close> evaluates for one entity: the test values, and the
  last \<^verbatim>\<open>len(arima_pred)\<close> values of Prophet's \<^verbatim>\<open>yhat\<close> column.
\<close>

definition actual_values :: "frame \<Rightarrow> fl list" where
  "actual_values test = map (Fin \<circ> snd) test"

definition prophet_tail :: "prow list \<Rightarrow> fl list \<Rightarrow> fl list" where
  "prophet_tail prophet_frame arima_pred =
     py_slice_from (map yhat prophet_frame) (- int (length arima_pred))"

text \<open>
  An entry of the ARIMA forecasts that \<open>compare_models\<close> gets through without an
  exception: its key is not in the test set (the entry is skipped), or the key is in
  the Prophet forecasts as well and both pairs of arrays pass the validation (equal
  length, at least one value, finite values).
\<close>

definition comparable_entity ::
  "('k \<times> prow list) list \<Rightarrow> ('k \<times> frame) list \<Rightarrow> 'k \<times> fl list \<Rightarrow> bool" where
  "comparable_entity prophet_forecasts test_data item =
     (case map_of test_data (fst item) of
        None \<Rightarrow> True
      | Some test \<Rightarrow>
          (case map_of prophet_forecasts (fst item) of
             None \<Rightarrow> False
           | Some prophet_frame \<Rightarrow>
               check_reg_targets (actual_values test) (snd item) \<and>
               check_reg_targets (actual_values test) (prophet_tail prophet_frame (snd item))))"

definition comparison_row ::
  "('k \<times> prow list) list \<Rightarrow> ('k \<times> frame) list \<Rightarrow> 'k \<times> fl list \<Rightarrow> 'k comparison" where
  "comparison_row prophet_forecasts test_data item =
     (let actual = actual_values (the (map_of test_data (fst item)));
          arima_metrics = metrics_of actual (snd item);
          prophet_metrics = metrics_of actual
            (prophet_tail (the (map_of prophet_forecasts (fst item))) (snd item))
      in \<lparr>Product_Category = fst item,
          ARIMA_MAE = MAE arima_metrics,
          ARIMA_RMSE = RMSE arima_metrics,
          ARIMA_MAPE = MAPE arima_metrics,
          Prophet_MAE = MAE prophet_metrics,
          Prophet_RMSE = RMSE prophet_metrics,
          Prophet_MAPE = MAPE prophet_metrics\<rparr>)"

section \<open>The comparison as the specification words it\<close>

text \<open>
  The specification's evaluator: one row for each entity that is in both forecast
  outputs and in the test set (any other entity is passed over), the metrics taken
  between the test suffix and the forecast slice, both cut to the length of the
  shorter of the two.
\<close>

definition evaluate_matched :: "fl list \<Rightarrow> fl list \<Rightarrow> error + metrics" where
  "evaluate_matched actual predicted =
     (let n = min (length actual) (length predicted)
      in evaluate_forecast (take n actual) (take n predicted))"

fun compare_models_spec_loop ::
  "('k \<times> fl list) list \<Rightarrow> ('k \<times> prow list) list \<Rightarrow>
   ('k \<times> frame) list \<Rightarrow> 'k comparison list \<Rightarrow> error + 'k comparison list" where
  "compare_models_spec_loop [] prophet_forecasts test_data results = Inr results"
| "compare_models_spec_loop ((key, arima_pred) # items) prophet_forecasts test_data results =
     (case (map_of test_data key, map_of prophet_forecasts key) of
        (Some test, Some prophet_frame) \<Rightarrow>
          (case evaluate_matched (actual_values test) arima_pred of
             Inl e \<Rightarrow> Inl e
           | Inr arima_metrics \<Rightarrow>
               (case evaluate_matched (actual_values test)
                       (prophet_tail prophet_frame arima_pred) of
                  Inl e \<Rightarrow> Inl e
                | Inr prophet_metrics \<Rightarrow>
                    compare_models_spec_loop items prophet_forecasts test_data
                      (results @
                       [\<lparr>Product_Category = key,
                         ARIMA_MAE = MAE arima_metrics,
                         ARIMA_RMSE = RMSE arima_metrics,
                         ARIMA_MAPE = MAPE arima_metrics,
                         Prophet_MAE = MAE prophet_metrics,
                         Prophet_RMSE = RMSE prophet_metrics,
                         Prophet_MAPE = MAPE prophet_metrics\<rparr>])))
      | _ \<Rightarrow> compare_models_spec_loop items prophet_forecasts test_data results)"

definition compare_models_spec ::
  "('k \<times> fl list) list \<Rightarrow> ('k \<times> prow list) list \<Rightarrow> ('k \<times> frame) list \<Rightarrow>
   error + 'k comparison list" where
  "compare_models_spec arima_forecasts prophet_forecasts test_data =
     compare_models_spec_loop arima_forecasts prophet_forecasts test_data []"

text \<open>A row of a Prophet forecast frame, for concrete runs.\<close>

definition demo_prow :: "nat \<Rightarrow> real \<Rightarrow> prow" where
  "demo_prow d y = \<lparr>ds = d, yhat = Fin y, yhat_lower = Fin (y - 1), yhat_upper = Fin (y + 1)\<rparr>"

section \<open>What the end-to-end run takes from the libraries\<close>

text \<open>
  The shape of what the two libraries return, as far as the pipeline relies on it.
  A forecast of statsmodels for \<open>n\<close> steps that returns has \<open>n\<close> finite values.
  A forecast frame of Prophet that returns has one row for each training date,
  followed by \<open>n\<close> rows for dates after the training range
  (\<^verbatim>\<open>make_future_dataframe(periods=n)\<close> keeps the history), with finite \<^verbatim>\<open>yhat\<close>.
\<close>

definition arima_contract :: "'m statsmodels \<Rightarrow> bool" where
  "arima_contract lib \<longleftrightarrow>
     (\<forall>model n f. ARIMA_forecast lib model n = Inr f \<longrightarrow>
        length f = nat n \<and> list_all is_finite f)"

definition prophet_contract :: "'p prophet \<Rightarrow> bool" where
  "prophet_contract lib \<longleftrightarrow>
     (\<forall>df model n rows.
        Prophet_fit lib df = Inr model \<and> forecast_prophet lib model n = Inr rows \<longrightarrow>
        (\<exists>future. map ds rows = map fst df @ future \<and> length future = nat n \<and>
           (\<forall>d\<in>set future. \<forall>h\<in>set (map fst df). h < d)) \<and>
        list_all (\<lambda>r. is_finite (yhat r)) rows)"

text \<open>The projected rows of a forecast frame: those dated after every training date.\<close>

definition projected :: "frame \<Rightarrow> prow list \<Rightarrow> prow list" where
  "projected train rows = filter (\<lambda>r. \<forall>h\<in>set (map fst train). h < ds r) rows"

text \<open>
  A stand-in for Prophet, for concrete runs: the model is the training frame, the
  future dates are the training dates and the next months, and every prediction is 1
  with the band from 0 to 2.
\<close>

definition stub_prophet :: "frame prophet" where
  "stub_prophet =
     \<lparr>Prophet_fit = (\<lambda>df. if df = [] then Inl ValueError else Inr df),
      make_future_dataframe =
        (\<lambda>model periods.
           Inr (map fst model @
                map (\<lambda>i. Suc (Max (set (map fst model))) + i) [0 ..< nat periods])),
      predict = (\<lambda>model dates. Inr (map (\<lambda>d. demo_prow d 1) dates))\<rparr>"

text \<open>
  A table of one product whose rows span January 2020 to December 2023, that is 48
  months after resampling.
\<close>

definition demo_table_48 :: "sales_row list" where
  "demo_table_48 = [demo_row 2020 1 31 7 5, demo_row 2023 12 31 7 6, demo_row 2020 2 29 7 7]"

section \<open>Properties of the percentage error\<close>

lemma np_sum_zeros: "foldl fl_add (Fin 0) (replicate n (Fin 0)) = Fin 0"
  by (induction n) simp_all

lemma mape_terms_same:
  assumes "\<forall>x\<in>set y. \<exists>r. x = Fin r \<and> r \<noteq> 0"
  shows "map fl_abs (map2 fl_div (map2 fl_sub y y) y) = replicate (length y) (Fin 0)"
  using assms by (induction y) auto

text \<open>
  C10. On a non-empty array whose entries are all non-zero numbers, the percentage
  error of the array against itself is 0.
\<close>

theorem calculate_mape_same:
  assumes "y \<noteq> []" and "\<forall>x\<in>set y. \<exists>r. x = Fin r \<and> r \<noteq> 0"
  shows "calculate_mape y y = Inr (Fin 0)"
proof -
  have zero: "np_mean (replicate (length y) (Fin 0)) = Fin 0"
    using assms(1) by (simp add: np_mean_def np_sum_def np_sum_zeros)
  have sub: "np_binop fl_sub y y = Inr (map2 fl_sub y y)"
    by (simp add: np_binop_def)
  have quot: "np_binop fl_div (map2 fl_sub y y) y = Inr (map2 fl_div (map2 fl_sub y y) y)"
    by (simp add: np_binop_def)
  show ?thesis
    unfolding calculate_mape_def sub quot sum.case mape_terms_same [OF assms(2)] zero
    by simp
qed

theorem calculate_mape_same_witness:
  "[Fin 3, Fin (-2), Fin 5] \<noteq> [] \<and>
   calculate_mape [Fin 3, Fin (-2), Fin 5] [Fin 3, Fin (-2), Fin 5] = Inr (Fin 0)"
  using calculate_mape_same [of "[Fin 3, Fin (-2), Fin 5]"] by simp

lemma fl_abs_not_NInf: "fl_abs x \<noteq> NInf"
  by (cases x) auto

lemma foldl_fl_add_NaN: "foldl fl_add NaN ts = NaN"
  by (induction ts) auto

lemma foldl_fl_add_has_NaN: "NaN \<in> set ts \<Longrightarrow> foldl fl_add acc ts = NaN"
proof (induction ts arbitrary: acc)
  case Nil
  then show ?case by simp
next
  case (Cons t ts)
  show ?case
  proof (cases "t = NaN")
    case True
    then have "fl_add acc t = NaN" by (cases acc) auto
    then show ?thesis by (simp add: foldl_fl_add_NaN)
  next
    case False
    with Cons show ?thesis by auto
  qed
qed

lemma foldl_fl_add_PInf:
  "NInf \<notin> set ts \<Longrightarrow> NaN \<notin> set ts \<Longrightarrow> foldl fl_add PInf ts = PInf"
proof (induction ts)
  case Nil
  then show ?case by simp
next
  case (Cons t ts)
  then have "fl_add PInf t = PInf" by (cases t) auto
  with Cons show ?case by simp
qed

lemma foldl_fl_add_has_PInf:
  "PInf \<in> set ts \<Longrightarrow> NInf \<notin> set ts \<Longrightarrow> NaN \<notin> set ts \<Longrightarrow> acc \<noteq> NInf \<Longrightarrow> acc \<noteq> NaN \<Longrightarrow>
   foldl fl_add acc ts = PInf"
proof (induction ts arbitrary: acc)
  case Nil
  then show ?case by simp
next
  case (Cons t ts)
  show ?case
  proof (cases "t = PInf")
    case True
    with Cons.prems have "fl_add acc t = PInf" by (cases acc) auto
    with Cons.prems show ?thesis by (simp add: foldl_fl_add_PInf)
  next
    case False
    with Cons.prems have "fl_add acc t \<noteq> NInf \<and> fl_add acc t \<noteq> NaN"
      by (cases acc; cases t) auto
    with Cons False show ?thesis by auto
  qed
qed

lemma mape_terms_zip:
  "length a = length p \<Longrightarrow>
   map fl_abs (map2 fl_div (map2 fl_sub a p) a) =
   map (\<lambda>(x, y). fl_abs (fl_div (fl_sub x y) x)) (zip a p)"
  by (induction a p rule: list_induct2) auto

lemma mape_term_zero: "fl_abs (fl_div (fl_sub (Fin 0) y) (Fin 0)) \<in> {NaN, PInf}"
  by (cases y) auto

lemma mape_term_NaN_iff:
  "is_finite x \<Longrightarrow> is_finite y \<Longrightarrow>
   fl_abs (fl_div (fl_sub x y) x) = NaN \<longleftrightarrow> x = Fin 0 \<and> y = Fin 0"
  by (cases x; cases y) auto

lemma np_mean_special:
  assumes "ts \<noteq> []" and "NInf \<notin> set ts" and "\<exists>t\<in>set ts. t = NaN \<or> t = PInf"
  shows "fl_mul (np_mean ts) (Fin 100) = (if NaN \<in> set ts then NaN else PInf)"
proof (cases "NaN \<in> set ts")
  case True
  then show ?thesis
    by (simp add: np_mean_def np_sum_def foldl_fl_add_has_NaN)
next
  case False
  with assms(3) have "PInf \<in> set ts" by auto
  with False assms(2) have "foldl fl_add (Fin 0) ts = PInf"
    by (intro foldl_fl_add_has_PInf) auto
  with False assms(1) show ?thesis
    by (simp add: np_mean_def np_sum_def)
qed

text \<open>
  C5 (as amended). On arrays of equal length with a zero among the actual values,
  \<^verbatim>\<open>calculate_mape\<close> does not raise and its result is never a finite number: it
  is NaN or \<open>+inf\<close>. For finite entries it is NaN exactly when some zero actual
  value meets a zero prediction (0/0), and \<open>+inf\<close> otherwise.
\<close>

theorem calculate_mape_zero_actual:
  assumes len: "length y_true = length y_pred" and zero: "Fin 0 \<in> set y_true"
  shows "\<exists>r. calculate_mape y_true y_pred = Inr r \<and> (r = NaN \<or> r = PInf) \<and>
     (list_all is_finite y_true \<and> list_all is_finite y_pred \<longrightarrow>
        (r = NaN \<longleftrightarrow> (Fin 0, Fin 0) \<in> set (zip y_true y_pred)))"
proof -
  define ts where "ts = map (\<lambda>(x, y). fl_abs (fl_div (fl_sub x y) x)) (zip y_true y_pred)"
  have sub: "np_binop fl_sub y_true y_pred = Inr (map2 fl_sub y_true y_pred)"
    using len by (simp add: np_binop_def)
  have quot: "np_binop fl_div (map2 fl_sub y_true y_pred) y_true =
      Inr (map2 fl_div (map2 fl_sub y_true y_pred) y_true)"
    using len by (simp add: np_binop_def)
  have mape: "calculate_mape y_true y_pred = Inr (fl_mul (np_mean ts) (Fin 100))"
    unfolding calculate_mape_def sub quot sum.case mape_terms_zip [OF len] ts_def ..
  obtain y where y: "(Fin 0, y) \<in> set (zip y_true y_pred)"
    using zero len by (metis in_set_impl_in_set_zip1)
  have "fl_abs (fl_div (fl_sub (Fin 0) y) (Fin 0)) \<in> set ts"
    unfolding ts_def using y by force
  then have special: "\<exists>t\<in>set ts. t = NaN \<or> t = PInf"
    using mape_term_zero [of y] by auto
  have ne: "ts \<noteq> []" using y by (auto simp: ts_def)
  have noninf: "NInf \<notin> set ts"
    using fl_abs_not_NInf by (auto simp: ts_def) metis
  have val: "fl_mul (np_mean ts) (Fin 100) = (if NaN \<in> set ts then NaN else PInf)"
    by (rule np_mean_special [OF ne noninf special])
  have fin: "NaN \<in> set ts \<longleftrightarrow> (Fin 0, Fin 0) \<in> set (zip y_true y_pred)"
    if "list_all is_finite y_true" "list_all is_finite y_pred"
  proof -
    have "\<And>x y. (x, y) \<in> set (zip y_true y_pred) \<Longrightarrow> is_finite x \<and> is_finite y"
      using that by (auto simp: list_all_iff dest: set_zip_leftD set_zip_rightD)
    then have fin2: "\<And>x y. (x, y) \<in> set (zip y_true y_pred) \<Longrightarrow>
        fl_abs (fl_div (fl_sub x y) x) = NaN \<longleftrightarrow> x = Fin 0 \<and> y = Fin 0"
      by (simp add: mape_term_NaN_iff)
    show ?thesis
    proof
      assume "NaN \<in> set ts"
      then obtain x y where "(x, y) \<in> set (zip y_true y_pred)"
        and "fl_abs (fl_div (fl_sub x y) x) = NaN"
        unfolding ts_def by auto
      then show "(Fin 0, Fin 0) \<in> set (zip y_true y_pred)"
        using fin2 by auto
    next
      assume "(Fin 0, Fin 0) \<in> set (zip y_true y_pred)"
      then have "fl_abs (fl_div (fl_sub (Fin 0) (Fin 0)) (Fin 0)) \<in> set ts"
        unfolding ts_def by force
      then show "NaN \<in> set ts" by simp
    qed
  qed
  show ?thesis
    using mape val fin by auto
qed

theorem calculate_mape_zero_actual_witness:
  "length [Fin 0, Fin 2] = length [Fin 0, Fin 1] \<and> Fin 0 \<in> set [Fin 0, Fin 2] \<and>
   calculate_mape [Fin 0, Fin 2] [Fin 0, Fin 1] = Inr NaN"
  using calculate_mape_zero_actual [of "[Fin 0, Fin 2]" "[Fin 0, Fin 1]"] by auto

text \<open>
  C5 as stated fails: the actual value 0 against the prediction 1 gives \<open>+inf\<close>,
  not NaN.
\<close>

theorem calculate_mape_zero_actual_counterexample:
  "Fin 0 \<in> set [Fin 0] \<and> calculate_mape [Fin 0] [Fin 1] = Inr PInf \<and>
   calculate_mape [Fin 0] [Fin 1] \<noteq> Inr NaN"
  by (simp add: calculate_mape_def np_binop_def np_mean_def np_sum_def)

section \<open>Properties of the differencing loop\<close>

lemma make_stationary_loop_result:
  "make_stationary_loop lib md s d = Inr (s', d') \<Longrightarrow>
   \<exists>n. d' = d + int n \<and> s' = (diff_dropna ^^ n) s \<and>
       (\<forall>j<n. d + int j < md \<and> (\<exists>p. adfuller lib ((diff_dropna ^^ j) s) = Inr p \<and> \<not> fl_lt p (Fin 0.05))) \<and>
       (\<exists>p. adfuller lib s' = Inr p \<and> (fl_lt p (Fin 0.05) \<or> md \<le> d'))"
proof (induction lib md s d rule: make_stationary_loop.induct)
  case (1 lib md s d)
  from "1.prems" obtain p where p: "adfuller lib s = Inr p"
    by (subst (asm) make_stationary_loop.simps)
       (auto simp: check_stationarity_def split: sum.splits)
  show ?case
  proof (cases "\<not> fl_lt p (Fin 0.05) \<and> d < md")
    case True
    then have rec: "make_stationary_loop lib md (diff_dropna s) (d + 1) = Inr (s', d')"
      using "1.prems" p
      by (subst (asm) make_stationary_loop.simps) (simp add: check_stationarity_def)
    have "check_stationarity lib s = Inr (fl_lt p (Fin 0.05))"
      using p by (simp add: check_stationarity_def)
    from "1.IH" [OF this _ rec] True
    obtain n where n: "d' = d + 1 + int n" "s' = (diff_dropna ^^ n) (diff_dropna s)"
      "\<forall>j<n. d + 1 + int j < md \<and> (\<exists>p. adfuller lib ((diff_dropna ^^ j) (diff_dropna s)) = Inr p \<and> \<not> fl_lt p (Fin 0.05))"
      "\<exists>p. adfuller lib s' = Inr p \<and> (fl_lt p (Fin 0.05) \<or> md \<le> d')"
      by auto
    have "\<forall>j<Suc n. d + int j < md \<and> (\<exists>p. adfuller lib ((diff_dropna ^^ j) s) = Inr p \<and> \<not> fl_lt p (Fin 0.05))"
    proof (intro allI impI)
      fix j assume "j < Suc n"
      show "d + int j < md \<and> (\<exists>p. adfuller lib ((diff_dropna ^^ j) s) = Inr p \<and> \<not> fl_lt p (Fin 0.05))"
      proof (cases j)
        case 0
        with True p show ?thesis by simp
      next
        case (Suc k)
        with \<open>j < Suc n\<close> n(3) have "d + 1 + int k < md \<and> (\<exists>p. adfuller lib ((diff_dropna ^^ k) (diff_dropna s)) = Inr p \<and> \<not> fl_lt p (Fin 0.05))"
          by simp
        with Suc show ?thesis by (simp add: funpow_swap1)
      qed
    qed
    with n show ?thesis
      by (intro exI [of _ "Suc n"]) (simp add: funpow_swap1)
  next
    case False
    then have "s' = s" "d' = d"
      using "1.prems" p
      by (subst (asm) make_stationary_loop.simps; auto simp: check_stationarity_def)+
    with False p show ?thesis
      by (intro exI [of _ 0]) auto
  qed
qed

lemma make_stationary_loop_total:
  "d \<le> md \<Longrightarrow>
   \<exists>n. d + int n \<le> md \<and>
     (make_stationary_loop lib md s d = Inr ((diff_dropna ^^ n) s, d + int n) \<or>
      (\<exists>e. make_stationary_loop lib md s d = Inl e \<and> adfuller lib ((diff_dropna ^^ n) s) = Inl e))"
proof (induction lib md s d rule: make_stationary_loop.induct)
  case (1 lib md s d)
  show ?case
  proof (cases "adfuller lib s")
    case (Inl e)
    then have "make_stationary_loop lib md s d = Inl e"
      by (subst make_stationary_loop.simps) (simp add: check_stationarity_def)
    with Inl "1.prems" show ?thesis
      by (intro exI [of _ 0]) simp
  next
    case (Inr p)
    then have cs: "check_stationarity lib s = Inr (fl_lt p (Fin 0.05))"
      by (simp add: check_stationarity_def)
    show ?thesis
    proof (cases "\<not> fl_lt p (Fin 0.05) \<and> d < md")
      case True
      then have step: "make_stationary_loop lib md s d = make_stationary_loop lib md (diff_dropna s) (d + 1)"
        using cs by (subst make_stationary_loop.simps) simp
      from True have "d + 1 \<le> md" by simp
      from "1.IH" [OF cs _ this] True
      obtain n where "d + 1 + int n \<le> md"
        "make_stationary_loop lib md (diff_dropna s) (d + 1) = Inr ((diff_dropna ^^ n) (diff_dropna s), d + 1 + int n) \<or>
         (\<exists>e. make_stationary_loop lib md (diff_dropna s) (d + 1) = Inl e \<and> adfuller lib ((diff_dropna ^^ n) (diff_dropna s)) = Inl e)"
        by auto
      then show ?thesis
        unfolding step by (intro exI [of _ "Suc n"]) (auto simp: funpow_swap1 add.assoc)
    next
      case False
      then have "make_stationary_loop lib md s d = Inr (s, d)"
        using cs by (subst make_stationary_loop.simps) auto
      with "1.prems" show ?thesis
        by (intro exI [of _ 0]) simp
    qed
  qed
qed

lemma stub_make_stationary:
  "make_stationary stub_statsmodels [1, 2, 4] 2 = Inr ([1, 2], 1)"
  by (simp add: make_stationary_def make_stationary_loop.simps check_stationarity_def
      stub_statsmodels_def stub_adfuller_def diff_dropna_def)

text \<open>
  C6 (as amended). When \<open>make_stationary\<close> returns \<open>(s', d)\<close>, then \<open>s'\<close> is
  the input differenced \<open>d\<close> times; every one of these \<open>d\<close> rounds ran because the
  p-value of the test was not below 0.05 (the test did not reject the null of
  non-stationarity) and fewer than \<open>max_diff\<close> rounds had been done; and the loop
  stopped because the p-value of \<open>s'\<close> is below 0.05 or \<open>d\<close> has reached
  \<open>max_diff\<close>. So at most \<open>max_diff\<close> rounds are applied.
\<close>

theorem make_stationary_differencing:
  assumes "make_stationary lib series max_diff = Inr (s', d)"
  shows "0 \<le> d \<and> s' = (diff_dropna ^^ nat d) series \<and>
     (\<forall>j<nat d. int j < max_diff \<and>
        (\<exists>p. adfuller lib ((diff_dropna ^^ j) series) = Inr p \<and> \<not> fl_lt p (Fin 0.05))) \<and>
     (\<exists>p. adfuller lib s' = Inr p \<and> (fl_lt p (Fin 0.05) \<or> max_diff \<le> d)) \<and>
     (0 \<le> max_diff \<longrightarrow> d \<le> max_diff)"
proof -
  from make_stationary_loop_result [OF assms [unfolded make_stationary_def]]
  obtain n where n: "d = int n" "s' = (diff_dropna ^^ n) series"
    "\<forall>j<n. int j < max_diff \<and>
       (\<exists>p. adfuller lib ((diff_dropna ^^ j) series) = Inr p \<and> \<not> fl_lt p (Fin 0.05))"
    "\<exists>p. adfuller lib s' = Inr p \<and> (fl_lt p (Fin 0.05) \<or> max_diff \<le> d)"
    by auto
  have "d \<le> max_diff" if "0 \<le> max_diff"
  proof (cases n)
    case 0
    with n(1) that show ?thesis by simp
  next
    case (Suc k)
    with n(3) have "int k < max_diff" by simp
    with Suc n(1) show ?thesis by simp
  qed
  with n show ?thesis by simp
qed

theorem make_stationary_differencing_witness:
  "make_stationary stub_statsmodels [1, 2, 4] 2 = Inr ([1, 2], 1) \<and>
   [1, 2] = (diff_dropna ^^ nat 1) [1, 2, 4] \<and>
   (\<exists>p. adfuller stub_statsmodels [1, 2, 4] = Inr p \<and> \<not> fl_lt p (Fin 0.05)) \<and>
   (\<exists>p. adfuller stub_statsmodels [1, 2] = Inr p \<and> fl_lt p (Fin 0.05))"
proof -
  have a: "adfuller stub_statsmodels [1, 2, 4] = Inr (Fin 0.5)"
    by (simp add: stub_statsmodels_def stub_adfuller_def)
  have b: "adfuller stub_statsmodels [1, 2] = Inr (Fin 0.01)"
    by (simp add: stub_statsmodels_def stub_adfuller_def)
  have c: "diff_dropna [1, 2, 4] = [1, 2]"
    by (simp add: diff_dropna_def)
  show ?thesis
    using make_stationary_differencing [OF stub_make_stationary] stub_make_stationary
    by (simp add: a b c)
qed

text \<open>
  C6 as stated fails. On a series whose p-value is 0.5 the test does not reject the
  null of non-stationarity; the code differences it all the same (once, until the
  p-value is 0.01), while a loop that differences as long as the test rejects the
  null returns the series unchanged with order 0.
\<close>

theorem make_stationary_differencing_counterexample:
  "adfuller stub_statsmodels [1, 2, 4] = Inr (Fin 0.5) \<and>
   make_stationary stub_statsmodels [1, 2, 4] 2 = Inr ([1, 2], 1) \<and>
   make_stationary_spec stub_statsmodels [1, 2, 4] 2 = Inr ([1, 2, 4], 0)"
  by (simp add: make_stationary_def make_stationary_loop.simps check_stationarity_def
      make_stationary_spec_def make_stationary_spec_loop.simps
      stub_statsmodels_def stub_adfuller_def diff_dropna_def)

text \<open>
  C7. For \<open>max_diff \<ge> 0\<close> the loop ends after some number \<open>d\<close> of rounds with
  \<open>0 \<le> d \<le> max_diff\<close>: either \<open>make_stationary\<close> returns the series differenced
  \<open>d\<close> times together with \<open>d\<close>, or the stationarity test raises on that series
  and \<open>make_stationary\<close> raises the same exception.
\<close>

theorem make_stationary_order_bounded:
  assumes "0 \<le> max_diff"
  shows "\<exists>d. 0 \<le> d \<and> d \<le> max_diff \<and>
     (make_stationary lib series max_diff = Inr ((diff_dropna ^^ nat d) series, d) \<or>
      (\<exists>e. make_stationary lib series max_diff = Inl e \<and>
           adfuller lib ((diff_dropna ^^ nat d) series) = Inl e))"
proof -
  from make_stationary_loop_total [OF assms, of lib series]
  obtain n where "int n \<le> max_diff"
    "make_stationary_loop lib max_diff series 0 = Inr ((diff_dropna ^^ n) series, int n) \<or>
     (\<exists>e. make_stationary_loop lib max_diff series 0 = Inl e \<and>
          adfuller lib ((diff_dropna ^^ n) series) = Inl e)"
    by auto
  then show ?thesis
    unfolding make_stationary_def by (intro exI [of _ "int n"]) simp
qed

theorem make_stationary_order_bounded_witness:
  "(0::int) \<le> 2 \<and>
   (\<exists>d. 0 \<le> d \<and> d \<le> 2 \<and>
     (make_stationary stub_statsmodels [1, 2, 4] 2 = Inr ((diff_dropna ^^ nat d) [1, 2, 4], d) \<or>
      (\<exists>e. make_stationary stub_statsmodels [1, 2, 4] 2 = Inl e \<and>
           adfuller stub_statsmodels ((diff_dropna ^^ nat d) [1, 2, 4]) = Inl e)))"
  using make_stationary_order_bounded [of 2 stub_statsmodels "[1, 2, 4]"] by simp

section \<open>Properties of the ARIMA pipeline\<close>

lemma update_fresh: "k \<notin> fst ` set al \<Longrightarrow> AList.update k v al = al @ [(k, v)]"
  by (induction al) auto

lemma arima_pipeline_loop_ok:
  assumes "\<forall>(k, df)\<in>set items. \<exists>f. arima_pipeline_body lib df steps = Inr f"
    and "distinct (map fst items)" and "fst ` set items \<inter> fst ` set acc = {}"
  shows "arima_pipeline_loop lib items steps acc =
    Inr (acc @ map (\<lambda>(k, df). (k, projr (arima_pipeline_body lib df steps))) items)"
  using assms
proof (induction items arbitrary: acc)
  case Nil
  then show ?case by simp
next
  case (Cons item items)
  obtain k df where item: "item = (k, df)" by (cases item)
  from Cons.prems(1) item obtain f where f: "arima_pipeline_body lib df steps = Inr f"
    by auto
  have fresh: "k \<notin> fst ` set acc"
    using Cons.prems(3) item by auto
  have "fst ` set items \<inter> fst ` set (acc @ [(k, f)]) = {}"
    using Cons.prems(2,3) item by auto
  with Cons.IH [of "acc @ [(k, f)]"] Cons.prems(1,2)
  have "arima_pipeline_loop lib items steps (acc @ [(k, f)]) =
    Inr ((acc @ [(k, f)]) @ map (\<lambda>(k, df). (k, projr (arima_pipeline_body lib df steps))) items)"
    by simp
  then show ?case
    by (simp add: item f update_fresh [OF fresh])
qed

lemma arima_pipeline_loop_fail:
  assumes "\<forall>(k', df')\<in>set pre. \<exists>f. arima_pipeline_body lib df' steps = Inr f"
    and "arima_pipeline_body lib df steps = Inl e"
  shows "arima_pipeline_loop lib (pre @ (k, df) # post) steps acc = Inl e"
  using assms(1)
proof (induction pre arbitrary: acc)
  case Nil
  then show ?case by (simp add: assms(2))
next
  case (Cons item pre)
  then show ?case by (cases item) auto
qed

lemma stub_constant: "make_stationary stub_statsmodels [3, 3, 3] 2 = Inr ([0, 0], 1)"
  by (simp add: make_stationary_def make_stationary_loop.simps check_stationarity_def
      stub_statsmodels_def stub_adfuller_def diff_dropna_def)

lemma stub_body_constant: "arima_pipeline_body stub_statsmodels constant_frame 12 = Inl LinAlgError"
  by (simp add: arima_pipeline_body_def constant_frame_def stub_constant train_arima_def)
     (simp add: stub_statsmodels_def stub_fit_def)

lemma stub_body_growing: "arima_pipeline_body stub_statsmodels growing_frame 12 = Inr (replicate 12 (Fin 2))"
  by (simp add: arima_pipeline_body_def growing_frame_def stub_make_stationary train_arima_def forecast_arima_def)
     (simp add: stub_statsmodels_def stub_fit_def stub_forecast_def forecast_arima_def)

text \<open>
  C1 (as amended). \<open>arima_pipeline\<close> has no handler around the work for one entity.
  When no entity fails, it returns one forecast per entity, in the order of the
  training dictionary. When the work for some entity raises and every entity before
  it succeeded, that exception leaves \<open>arima_pipeline\<close>: no forecast dictionary is
  returned, whatever the later entities would have given.
\<close>

theorem arima_pipeline_failure_propagates:
  assumes "distinct (map fst train)"
  shows "((\<forall>(k, df)\<in>set train. \<exists>f. arima_pipeline_body lib df steps = Inr f) \<longrightarrow>
      arima_pipeline lib train steps =
        Inr (map (\<lambda>(k, df). (k, projr (arima_pipeline_body lib df steps))) train)) \<and>
     (\<forall>pre k df post e.
        train = pre @ (k, df) # post \<and>
        (\<forall>(k', df')\<in>set pre. \<exists>f. arima_pipeline_body lib df' steps = Inr f) \<and>
        arima_pipeline_body lib df steps = Inl e \<longrightarrow>
        arima_pipeline lib train steps = Inl e)"
  using assms
  by (auto simp: arima_pipeline_def arima_pipeline_loop_ok arima_pipeline_loop_fail)

theorem arima_pipeline_failure_propagates_witness:
  "distinct (map fst [(2::int, growing_frame), (1, constant_frame)]) \<and>
   arima_pipeline stub_statsmodels [(2::int, growing_frame), (1, constant_frame)] 12 =
     Inl LinAlgError"
proof -
  have d: "distinct (map fst [(2::int, growing_frame), (1, constant_frame)])"
    by simp
  note t = arima_pipeline_failure_propagates [OF d, of stub_statsmodels 12,
      THEN conjunct2, rule_format,
      of "[(2, growing_frame)]" 1 constant_frame "[]" LinAlgError]
  have "arima_pipeline stub_statsmodels [(2::int, growing_frame), (1, constant_frame)] 12 =
      Inl LinAlgError"
    by (rule t) (simp add: stub_body_constant stub_body_growing)
  with d show ?thesis by simp
qed

text \<open>
  C1 as stated fails. Fitting raises for entity 1 (constant sales) and would succeed
  for entity 2, yet the pipeline over both returns no dictionary at all: the
  exception of entity 1 is its result.
\<close>

theorem arima_pipeline_failure_propagates_counterexample:
  "arima_pipeline_body stub_statsmodels constant_frame 12 = Inl LinAlgError \<and>
   arima_pipeline_body stub_statsmodels growing_frame 12 = Inr (replicate 12 (Fin 2)) \<and>
   arima_pipeline stub_statsmodels [(1::int, constant_frame), (2, growing_frame)] 12 =
     Inl LinAlgError"
  by (simp add: arima_pipeline_def stub_body_constant stub_body_growing)

text \<open>
  C2. What the code does: when the differencing loop returns the order \<open>d\<close>, the
  model is fitted with order \<open>(1, d, 1)\<close> to the series that has already been
  differenced \<open>d\<close> times, not to the entity's training series, and the forecast of
  that model for \<open>steps\<close> periods is the entity's result.
\<close>

theorem arima_pipeline_body_fits_differenced:
  assumes "make_stationary lib (map snd df) 2 = Inr (s', d)"
  shows "arima_pipeline_body lib df steps =
    (case ARIMA_fit lib ((diff_dropna ^^ nat d) (map snd df)) (1, d, 1) of
       Inl e \<Rightarrow> Inl e
     | Inr model \<Rightarrow> ARIMA_forecast lib model steps)"
proof -
  have "s' = (diff_dropna ^^ nat d) (map snd df)"
    using make_stationary_loop_result [OF assms [unfolded make_stationary_def]] by auto
  then show ?thesis
    by (simp add: arima_pipeline_body_def assms train_arima_def forecast_arima_def
        split: sum.splits)
qed


theorem arima_pipeline_body_fits_differenced_witness:
  "make_stationary stub_statsmodels (map snd growing_frame) 2 = Inr ([1, 2], 1) \<and>
   map snd growing_frame = [1, 2, 4] \<and>
   ARIMA_fit stub_statsmodels [1, 2] (1, 1, 1) = Inr ([1, 2], 1, 1, 1) \<and>
   arima_pipeline_body stub_statsmodels growing_frame 12 =
     ARIMA_forecast stub_statsmodels ([1, 2], 1, 1, 1) 12"
proof -
  have ms: "make_stationary stub_statsmodels (map snd growing_frame) 2 = Inr ([1, 2], 1)"
    by (simp add: growing_frame_def stub_make_stationary)
  have diff: "(diff_dropna ^^ nat 1) (map snd growing_frame) = [1, 2]"
    by (simp add: growing_frame_def diff_dropna_def)
  have fit: "ARIMA_fit stub_statsmodels [1, 2] (1, 1, 1) = Inr ([1, 2], 1, 1, 1)"
    by (simp add: stub_statsmodels_def stub_fit_def)
  have "arima_pipeline_body stub_statsmodels growing_frame 12 =
      ARIMA_forecast stub_statsmodels ([1, 2], 1, 1, 1) 12"
    unfolding arima_pipeline_body_fits_differenced [OF ms, of 12] diff fit by simp
  with ms fit show ?thesis
    by (simp add: growing_frame_def)
qed

section \<open>Properties of the data generator\<close>

lemma generate_row_nonneg:
  "0 \<le> sales (fst (generate_row rng days_since pid cat base_sales trend seasonality d st))"
  by (simp add: generate_row_def Let_def split: prod.splits)

lemma generate_dates_loop_nonneg:
  assumes "\<forall>row\<in>set data. 0 \<le> sales row"
  shows "\<forall>row\<in>set (fst (generate_dates_loop rng days_since pid cat base_sales trend
                              seasonality dates st data)). 0 \<le> sales row"
  using assms
proof (induction dates arbitrary: st data)
  case Nil
  then show ?case by simp
next
  case (Cons d dates)
  obtain row st' where r: "generate_row rng days_since pid cat base_sales trend seasonality d st = (row, st')"
    by (cases "generate_row rng days_since pid cat base_sales trend seasonality d st")
  have "0 \<le> sales row"
    using generate_row_nonneg [of rng days_since pid cat base_sales trend seasonality d st]
    by (simp add: r)
  with Cons.prems have "\<forall>x\<in>set (data @ [row]). 0 \<le> sales x" by auto
  from Cons.IH [OF this] show ?case by (simp add: r)
qed

lemma generate_products_loop_nonneg:
  assumes "generate_products_loop rng days_since num_categories dates pids st data = Inr (rows, st')"
    and "\<forall>row\<in>set data. 0 \<le> sales row"
  shows "\<forall>row\<in>set rows. 0 \<le> sales row"
  using assms
proof (induction pids arbitrary: st data)
  case Nil
  then show ?case by simp
next
  case (Cons pid pids)
  from Cons.prems(1) obtain cat b t se st4 data' st5 where
    g: "generate_dates_loop rng days_since pid cat b t se dates st4 data = (data', st5)"
    and rec: "generate_products_loop rng days_since num_categories dates pids st5 data' = Inr (rows, st')"
    by (auto simp: Let_def split: if_splits prod.splits)
  have "\<forall>row\<in>set data'. 0 \<le> sales row"
    using generate_dates_loop_nonneg [OF Cons.prems(2), of rng days_since pid cat b t se dates st4]
    unfolding g by simp
  from Cons.IH [OF rec this] show ?case .
qed

text \<open>
  C9. Whatever the parameters and whatever the random source returns, every row of a
  table that \<open>generate_synthetic_sales_data\<close> returns has sales at least 0: the
  value stored is \<^verbatim>\<open>max(0, sales)\<close>.
\<close>

theorem generate_synthetic_sales_data_nonneg:
  assumes "generate_synthetic_sales_data rng num_products num_categories dates days_since st = Inr (rows, st')"
  shows "\<forall>row\<in>set rows. 0 \<le> sales row"
  using generate_products_loop_nonneg [OF assms [unfolded generate_synthetic_sales_data_def]]
  by simp

lemma str_int_1: "str_int 1 = ''1''"
  by code_simp

lemma stub_generate:
  "generate_synthetic_sales_data stub_random 1 3 [\<lparr>year = 2020, month = 12, day = 31\<rparr>] (\<lambda>d. 365) 0 =
   Inr ([\<lparr>date = \<lparr>year = 2020, month = 12, day = 31\<rparr>, product_id = 1, category = ''Category_1'',
          sales = 76, price = 10, promotion_flag = 0\<rparr>], 7)"
  by (simp add: generate_synthetic_sales_data_def upto.simps stub_random_def generate_row_def
      str_int_1 py_int_def)


theorem generate_synthetic_sales_data_nonneg_witness:
  "generate_synthetic_sales_data stub_random 1 3 [\<lparr>year = 2020, month = 12, day = 31\<rparr>]
     (\<lambda>d. 365) 0 =
   Inr ([\<lparr>date = \<lparr>year = 2020, month = 12, day = 31\<rparr>, product_id = 1,
          category = ''Category_1'', sales = 76, price = 10, promotion_flag = 0\<rparr>], 7) \<and>
   0 \<le> sales \<lparr>date = \<lparr>year = 2020, month = 12, day = 31\<rparr>, product_id = 1,
          category = ''Category_1'', sales = 76, price = 10, promotion_flag = 0\<rparr>"
  using generate_synthetic_sales_data_nonneg [OF stub_generate] stub_generate by simp

section \<open>Properties of the train/test split\<close>

lemma py_slice_append: "py_slice_to xs i @ py_slice_from xs i = xs"
  by (simp add: py_slice_to_def py_slice_from_def)

lemma py_bound_last: "0 < k \<Longrightarrow> py_bound n (- k) = n - nat k"
  unfolding py_bound_def by (simp add: max_def) linarith

lemma py_slice_to_last:
  "0 < k \<Longrightarrow> py_slice_to xs (- k) = take (length xs - nat k) xs"
  by (simp add: py_slice_to_def py_bound_last)

lemma py_slice_from_last:
  "0 < k \<Longrightarrow> py_slice_from xs (- k) = drop (length xs - nat k) xs"
  by (simp add: py_slice_from_def py_bound_last)

lemma preprocess_data_loop_map_of:
  assumes "distinct (map fst groups)"
    and "preprocess_data_loop groups test_size train_data test_data = (train', test')"
  shows "map_of train' name =
      (case map_of groups name of
         None \<Rightarrow> map_of train_data name
       | Some grp \<Rightarrow> Some (py_slice_to (monthly_sales grp) (- test_size))) \<and>
    map_of test' name =
      (case map_of groups name of
         None \<Rightarrow> map_of test_data name
       | Some grp \<Rightarrow> Some (py_slice_from (monthly_sales grp) (- test_size)))"
  using assms
proof (induction groups arbitrary: train_data test_data)
  case Nil
  then show ?case by simp
next
  case (Cons g groups)
  obtain n grp where g: "g = (n, grp)" by (cases g)
  from Cons.prems(1) g have notin: "map_of groups n = None" and dist: "distinct (map fst groups)"
    by (auto simp: map_of_eq_None_iff)
  from Cons.prems(2) g have rec:
    "preprocess_data_loop groups test_size
       (AList.update n (py_slice_to (monthly_sales grp) (- test_size)) train_data)
       (AList.update n (py_slice_from (monthly_sales grp) (- test_size)) test_data) = (train', test')"
    by (simp add: Let_def)
  from Cons.IH [OF dist rec] notin show ?case
    by (cases "name = n") (auto simp: g update_conv' split: option.splits)
qed

lemma map_of_groupby:
  "name \<in> group_by ` set df \<Longrightarrow>
   map_of (groupby group_by df) name = Some (filter (\<lambda>r. group_by r = name) df)"
proof -
  assume "name \<in> group_by ` set df"
  then have "name \<in> set (sort (remdups (map group_by df)))" by simp
  then show ?thesis
    unfolding groupby_def by (induction "sort (remdups (map group_by df))") (auto simp: map_of_map_restrict)
qed

lemma distinct_groupby: "distinct (map fst (groupby group_by df))"
  by (simp add: groupby_def comp_def)

text \<open>
  C8. For every entity of the table, with \<open>series\<close> its date-sorted, monthly
  resampled sales: the training part followed by the test part is \<open>series\<close>, so
  their lengths add up to its length, whatever \<open>test_size\<close> is and however short
  the group is; and for a test size of at least 1 the training part is all but the
  last \<open>test_size\<close> points and the test part is the last \<open>test_size\<close> points
  (all points, when there are fewer).
\<close>

theorem preprocess_data_split:
  assumes "preprocess_data df group_by test_size = (train_data, test_data)"
    and "name \<in> group_by ` set df"
    and "series = monthly_sales (filter (\<lambda>r. group_by r = name) df)"
  shows "\<exists>train test. map_of train_data name = Some train \<and> map_of test_data name = Some test \<and>
     train @ test = series \<and> length train + length test = length series \<and>
     (0 < test_size \<longrightarrow>
        train = take (length series - nat test_size) series \<and>
        test = drop (length series - nat test_size) series)"
proof -
  from preprocess_data_loop_map_of [OF distinct_groupby assms(1) [unfolded preprocess_data_def], of name]
  have tr: "map_of train_data name = Some (py_slice_to series (- test_size))"
    and te: "map_of test_data name = Some (py_slice_from series (- test_size))"
    by (simp_all add: map_of_groupby [OF assms(2)] assms(3))
  have "length (py_slice_to series (- test_size)) + length (py_slice_from series (- test_size)) = length series"
    using py_slice_append [of series "- test_size"] by (metis length_append)
  with tr te show ?thesis
    by (auto simp: py_slice_append py_slice_to_last py_slice_from_last)
qed

lemma demo_groupby:
  "groupby product_id demo_table =
     [(1, [demo_row 2020 2 29 1 4, demo_row 2020 1 31 1 3, demo_row 2020 4 30 1 7, demo_row 2020 1 20 1 2]),
      (2, [demo_row 2020 1 15 2 9])]"
  by (simp add: groupby_def demo_table_def demo_row_def)

lemma demo_monthly:
  "monthly_sales [demo_row 2020 2 29 1 4, demo_row 2020 1 31 1 3, demo_row 2020 4 30 1 7, demo_row 2020 1 20 1 2] =
     [(24240, 5), (24241, 4), (24242, 0), (24243, 7)]"
  by (simp add: monthly_sales_def resample_sum_def demo_row_def date_ord_def month_no_def upt_rec)


lemma demo_monthly_2: "monthly_sales [demo_row 2020 1 15 2 9] = [(24240, 9)]"
  by (simp add: monthly_sales_def resample_sum_def demo_row_def date_ord_def month_no_def upt_rec)

lemma demo_preprocess:
  "preprocess_data demo_table product_id 1 =
     ([(1, [(24240, 5), (24241, 4), (24242, 0)]), (2, [])],
      [(1, [(24243, 7)]), (2, [(24240, 9)])])"
  unfolding preprocess_data_def demo_groupby preprocess_data_loop.simps Let_def
    demo_monthly demo_monthly_2
  by (simp add: py_slice_to_def py_slice_from_def py_bound_def)

theorem preprocess_data_split_witness:
  "preprocess_data demo_table product_id 1 =
     ([(1, [(24240, 5), (24241, 4), (24242, 0)]), (2, [])],
      [(1, [(24243, 7)]), (2, [(24240, 9)])]) \<and>
   1 \<in> product_id ` set demo_table \<and> (0::int) < 1 \<and>
   monthly_sales (filter (\<lambda>r. product_id r = 1) demo_table) =
     [(24240, 5), (24241, 4), (24242, 0), (24243, 7)] \<and>
   (\<exists>train test.
      map_of [(1::int, [(24240::nat, 5::real), (24241, 4), (24242, 0)]), (2, [])] 1 = Some train \<and>
      map_of [(1::int, [(24243::nat, 7::real)]), (2, [(24240, 9)])] 1 = Some test \<and>
      train = take (4 - nat 1) [(24240, 5), (24241, 4), (24242, 0), (24243, 7)] \<and>
      test = drop (4 - nat 1) [(24240, 5), (24241, 4), (24242, 0), (24243, 7)])"
proof -
  have mem: "1 \<in> product_id ` set demo_table"
    by (simp add: demo_table_def demo_row_def)
  have ms: "monthly_sales (filter (\<lambda>r. product_id r = 1) demo_table) =
      [(24240, 5), (24241, 4), (24242, 0), (24243, 7)]"
    unfolding demo_monthly [symmetric] by (simp add: demo_table_def demo_row_def)
  show ?thesis
    using preprocess_data_split [OF demo_preprocess mem ms [symmetric]] demo_preprocess mem ms
    by simp
qed

section \<open>Properties of the comparison\<close>

lemma calculate_mape_same_length:
  "length a = length p \<Longrightarrow>
   calculate_mape a p =
     Inr (fl_mul (np_mean (map fl_abs (map2 fl_div (map2 fl_sub a p) a))) (Fin 100))"
  by (simp add: calculate_mape_def np_binop_def)

lemma evaluate_forecast_ok:
  "check_reg_targets a p \<Longrightarrow> evaluate_forecast a p = Inr (metrics_of a p)"
  by (simp add: evaluate_forecast_def mean_absolute_error_def mean_squared_error_def
      metrics_of_def calculate_mape_same_length check_reg_targets_def)

lemma evaluate_forecast_error:
  "\<not> check_reg_targets a p \<Longrightarrow> evaluate_forecast a p = Inl ValueError"
  by (simp add: evaluate_forecast_def mean_absolute_error_def)

lemma compare_models_loop_ok:
  assumes "list_all (comparable_entity pf td) items"
  shows "compare_models_loop items pf td results =
    Inr (results @ map (comparison_row pf td) (filter (\<lambda>item. map_of td (fst item) \<noteq> None) items))"
  using assms
proof (induction items arbitrary: results)
  case Nil
  then show ?case by simp
next
  case (Cons item items)
  obtain key arima_pred where item: "item = (key, arima_pred)" by (cases item)
  from Cons.prems have rest: "list_all (comparable_entity pf td) items"
    and this_one: "comparable_entity pf td (key, arima_pred)"
    by (simp_all add: item)
  show ?case
  proof (cases "map_of td key")
    case None
    with Cons.IH [OF rest] show ?thesis by (simp add: item)
  next
    case (Some test)
    with this_one obtain frame where frame: "map_of pf key = Some frame"
      and a: "check_reg_targets (actual_values test) arima_pred"
      and b: "check_reg_targets (actual_values test) (prophet_tail frame arima_pred)"
      by (auto simp: comparable_entity_def split: option.splits)
    have row: "comparison_row pf td (key, arima_pred) =
      \<lparr>Product_Category = key,
        ARIMA_MAE = MAE (metrics_of (actual_values test) arima_pred),
        ARIMA_RMSE = RMSE (metrics_of (actual_values test) arima_pred),
        ARIMA_MAPE = MAPE (metrics_of (actual_values test) arima_pred),
        Prophet_MAE = MAE (metrics_of (actual_values test) (prophet_tail frame arima_pred)),
        Prophet_RMSE = RMSE (metrics_of (actual_values test) (prophet_tail frame arima_pred)),
        Prophet_MAPE = MAPE (metrics_of (actual_values test) (prophet_tail frame arima_pred))\<rparr>"
      by (simp add: comparison_row_def Some frame Let_def)
    show ?thesis
      using evaluate_forecast_ok [OF a] evaluate_forecast_ok [OF b]
      by (simp add: item Some frame Cons.IH [OF rest] row Let_def
          actual_values_def [symmetric] prophet_tail_def [symmetric])
  qed
qed

lemma compare_models_loop_error:
  assumes "\<not> list_all (comparable_entity pf td) items"
  shows "compare_models_loop items pf td results \<in> {Inl KeyError, Inl ValueError}"
  using assms
proof (induction items arbitrary: results)
  case Nil
  then show ?case by simp
next
  case (Cons item items)
  obtain key arima_pred where item: "item = (key, arima_pred)" by (cases item)
  show ?case
  proof (cases "comparable_entity pf td (key, arima_pred)")
    case True
    with Cons.prems have rest: "\<not> list_all (comparable_entity pf td) items"
      by (simp add: item)
    show ?thesis
    proof (cases "map_of td key")
      case None
      with Cons.IH [OF rest] show ?thesis by (simp add: item)
    next
      case (Some test)
      with True obtain frame where frame: "map_of pf key = Some frame"
        and a: "check_reg_targets (actual_values test) arima_pred"
        and b: "check_reg_targets (actual_values test) (prophet_tail frame arima_pred)"
        by (auto simp: comparable_entity_def split: option.splits)
      show ?thesis
        using evaluate_forecast_ok [OF a] evaluate_forecast_ok [OF b] Cons.IH [OF rest]
        by (simp add: item Some frame Let_def
            actual_values_def [symmetric] prophet_tail_def [symmetric])
    qed
  next
    case False
    then obtain test where test: "map_of td key = Some test"
      by (auto simp: comparable_entity_def split: option.splits)
    show ?thesis
    proof (cases "map_of pf key")
      case None
      with test show ?thesis by (simp add: item)
    next
      case (Some frame)
      with False test have "\<not> check_reg_targets (actual_values test) arima_pred \<or>
          \<not> check_reg_targets (actual_values test) (prophet_tail frame arima_pred)"
        by (simp add: comparable_entity_def)
      then show ?thesis
      proof
        assume "\<not> check_reg_targets (actual_values test) arima_pred"
        from evaluate_forecast_error [OF this] show ?thesis
          by (simp add: item test Some Let_def actual_values_def [symmetric])
      next
        assume b: "\<not> check_reg_targets (actual_values test) (prophet_tail frame arima_pred)"
        show ?thesis
        proof (cases "check_reg_targets (actual_values test) arima_pred")
          case True
          from evaluate_forecast_ok [OF True] evaluate_forecast_error [OF b] show ?thesis
            by (simp add: item test Some Let_def actual_values_def [symmetric] prophet_tail_def [symmetric])
        next
          case False
          from evaluate_forecast_error [OF this] show ?thesis
            by (simp add: item test Some Let_def actual_values_def [symmetric])
        qed
      qed
    qed
  qed
qed

text \<open>
  C4 (as amended). When every entry of the ARIMA forecasts is comparable (its key is
  not in the test set, or it is in the Prophet forecasts too and the test values, the
  ARIMA forecast and the last \<^verbatim>\<open>len(arima_pred)\<close> values of \<^verbatim>\<open>yhat\<close> have the same
  non-zero length and are finite), \<open>compare_models\<close> returns exactly one row for
  each ARIMA entry whose key is in the test set, in the order of the ARIMA forecasts,
  with the three metrics of each model computed position by position on the whole
  arrays. Otherwise it returns no rows: it raises. Nothing is cut to the length of
  the shorter array.
\<close>

theorem compare_models_rows:
  "(list_all (comparable_entity prophet_forecasts test_data) arima_forecasts \<longrightarrow>
      compare_models arima_forecasts prophet_forecasts test_data =
        Inr (map (comparison_row prophet_forecasts test_data)
               (filter (\<lambda>item. map_of test_data (fst item) \<noteq> None) arima_forecasts))) \<and>
   (\<not> list_all (comparable_entity prophet_forecasts test_data) arima_forecasts \<longrightarrow>
      compare_models arima_forecasts prophet_forecasts test_data \<in> {Inl KeyError, Inl ValueError})"
  using compare_models_loop_ok [of prophet_forecasts test_data arima_forecasts "[]"]
    compare_models_loop_error [of prophet_forecasts test_data arima_forecasts "[]"]
  by (auto simp: compare_models_def)


theorem compare_models_rows_witness:
  "list_all (comparable_entity [(1::int, [demo_prow 4 9, demo_prow 5 1, demo_prow 6 2])]
       [(1, [(5, 1), (6, 2)])])
     [(1, [Fin 3, Fin 4]), (2, [Fin 5])] \<and>
   compare_models [(1::int, [Fin 3, Fin 4]), (2, [Fin 5])]
       [(1, [demo_prow 4 9, demo_prow 5 1, demo_prow 6 2])] [(1, [(5, 1), (6, 2)])] =
     Inr [\<lparr>Product_Category = 1, ARIMA_MAE = Fin 2, ARIMA_RMSE = Fin 2, ARIMA_MAPE = Fin 150,
            Prophet_MAE = Fin 0, Prophet_RMSE = Fin 0, Prophet_MAPE = Fin 0\<rparr>] \<and>
   \<not> list_all (comparable_entity [(1::int, [demo_prow 4 9, demo_prow 5 1, demo_prow 6 2])]
       [(1, [(6, 1)])])
     [(1, [Fin 1, Fin 2])] \<and>
   compare_models [(1::int, [Fin 1, Fin 2])]
       [(1, [demo_prow 4 9, demo_prow 5 1, demo_prow 6 2])] [(1, [(6, 1)])]
     \<in> {Inl KeyError, Inl ValueError}"
proof -
  have ok: "list_all (comparable_entity [(1::int, [demo_prow 4 9, demo_prow 5 1, demo_prow 6 2])]
       [(1, [(5, 1), (6, 2)])])
     [(1, [Fin 3, Fin 4]), (2, [Fin 5])]"
    by (simp add: comparable_entity_def check_reg_targets_def actual_values_def
        prophet_tail_def py_slice_from_def py_bound_def demo_prow_def)
  have bad: "\<not> list_all (comparable_entity [(1::int, [demo_prow 4 9, demo_prow 5 1, demo_prow 6 2])]
       [(1, [(6, 1)])])
     [(1, [Fin 1, Fin 2])]"
    by (simp add: comparable_entity_def check_reg_targets_def actual_values_def)
  have row: "map (comparison_row [(1::int, [demo_prow 4 9, demo_prow 5 1, demo_prow 6 2])]
        [(1, [(5, 1), (6, 2)])])
      (filter (\<lambda>item. map_of [(1::int, [(5::nat, 1::real), (6, 2)])] (fst item) \<noteq> None)
        [(1, [Fin 3, Fin 4]), (2, [Fin 5])]) =
     [\<lparr>Product_Category = 1, ARIMA_MAE = Fin 2, ARIMA_RMSE = Fin 2, ARIMA_MAPE = Fin 150,
       Prophet_MAE = Fin 0, Prophet_RMSE = Fin 0, Prophet_MAPE = Fin 0\<rparr>]"
    by (simp add: comparison_row_def metrics_of_def actual_values_def prophet_tail_def
        py_slice_from_def py_bound_def demo_prow_def np_mean_def np_sum_def)
  show ?thesis
    using compare_models_rows [of "[(1::int, [demo_prow 4 9, demo_prow 5 1, demo_prow 6 2])]"
        "[(1, [(5, 1), (6, 2)])]" "[(1, [Fin 3, Fin 4]), (2, [Fin 5])]"]
      compare_models_rows [of "[(1::int, [demo_prow 4 9, demo_prow 5 1, demo_prow 6 2])]"
        "[(1, [(6, 1)])]" "[(1, [Fin 1, Fin 2])]"]
      ok bad
    unfolding row by blast
qed

text \<open>
  C4 as stated fails. With one test value against an ARIMA forecast of two values,
  the specification's evaluator cuts both to length one and returns a row; the code
  passes the arrays on as they are and scikit-learn raises \<^verbatim>\<open>ValueError\<close>. And an
  entity of the ARIMA forecasts and the test set that the Prophet forecasts lack is
  not passed over: \<^verbatim>\<open>prophet_forecasts[key]\<close> raises \<^verbatim>\<open>KeyError\<close>.
\<close>

theorem compare_models_rows_counterexample:
  "compare_models [(1::int, [Fin 1, Fin 2])]
       [(1, [demo_prow 4 9, demo_prow 5 1, demo_prow 6 2])] [(1, [(6, 1)])] = Inl ValueError \<and>
   compare_models_spec [(1::int, [Fin 1, Fin 2])]
       [(1, [demo_prow 4 9, demo_prow 5 1, demo_prow 6 2])] [(1, [(6, 1)])] =
     Inr [\<lparr>Product_Category = 1, ARIMA_MAE = Fin 0, ARIMA_RMSE = Fin 0, ARIMA_MAPE = Fin 0,
            Prophet_MAE = Fin 0, Prophet_RMSE = Fin 0, Prophet_MAPE = Fin 0\<rparr>] \<and>
   compare_models [(1::int, [Fin 1])] [] [(1, [(6, 1)])] = Inl KeyError \<and>
   compare_models_spec [(1::int, [Fin 1])] [] [(1, [(6, 1)])] = Inr []"
  by (simp add: compare_models_def compare_models_spec_def evaluate_matched_def
      evaluate_forecast_def mean_absolute_error_def mean_squared_error_def
      check_reg_targets_def calculate_mape_def np_binop_def np_mean_def np_sum_def
      actual_values_def prophet_tail_def py_slice_from_def py_bound_def demo_prow_def)

section \<open>The metrics are non-negative\<close>

lemma finite_list_map_Fin: "list_all is_finite xs \<Longrightarrow> \<exists>rs. xs = map Fin rs"
proof (induction xs)
  case Nil
  then show ?case by simp
next
  case (Cons x xs)
  then obtain rs where "xs = map Fin rs" by auto
  moreover from Cons.prems obtain r where "x = Fin r" by (cases x) auto
  ultimately have "x # xs = map Fin (r # rs)" by simp
  then show ?case by (rule exI)
qed

lemma foldl_fl_add_Fin: "foldl fl_add (Fin a) (map Fin rs) = Fin (a + sum_list rs)"
  by (induction rs arbitrary: a) (simp_all add: add.assoc)

lemma np_mean_Fin:
  "rs \<noteq> [] \<Longrightarrow> np_mean (map Fin rs) = Fin (sum_list rs / real (length rs))"
  by (simp add: np_mean_def np_sum_def foldl_fl_add_Fin)

lemma np_mean_nonneg:
  assumes "rs \<noteq> []" and "\<forall>r\<in>set rs. 0 \<le> r"
  shows "\<exists>x\<ge>0. np_mean (map Fin rs) = Fin x"
proof -
  have "0 \<le> sum_list rs" using assms(2) by (simp add: sum_list_nonneg)
  then have "0 \<le> sum_list rs / real (length rs)" by simp
  with np_mean_Fin [OF assms(1)] show ?thesis by blast
qed

lemma mae_nonneg:
  assumes "check_reg_targets a p"
  shows "\<exists>x\<ge>0. MAE (metrics_of a p) = Fin x"
proof -
  from assms obtain ra rp where a: "a = map Fin ra" and p: "p = map Fin rp"
    using finite_list_map_Fin unfolding check_reg_targets_def by metis
  from assms have len: "length ra = length rp" and ne: "ra \<noteq> []"
    by (auto simp: check_reg_targets_def a p)
  have eq: "map fl_abs (map2 fl_sub p a) = map Fin (map2 (\<lambda>x y. \<bar>x - y\<bar>) rp ra)"
    unfolding a p using len [symmetric] by (induction rp ra rule: list_induct2) auto
  have ne2: "map2 (\<lambda>x y. \<bar>x - y\<bar>) rp ra \<noteq> []"
    using len ne by (cases rp; cases ra) auto
  have "\<forall>r\<in>set (map2 (\<lambda>x y. \<bar>x - y\<bar>) rp ra). 0 \<le> r" by auto
  from np_mean_nonneg [OF ne2 this] have "\<exists>x\<ge>0. np_mean (map fl_abs (map2 fl_sub p a)) = Fin x"
    unfolding eq .
  moreover have "MAE (metrics_of a p) = np_mean (map fl_abs (map2 fl_sub p a))"
    unfolding metrics_of_def by simp
  ultimately show ?thesis by simp
qed

lemma rmse_nonneg:
  assumes "check_reg_targets a p"
  shows "\<exists>x\<ge>0. RMSE (metrics_of a p) = Fin x"
proof -
  from assms obtain ra rp where a: "a = map Fin ra" and p: "p = map Fin rp"
    using finite_list_map_Fin unfolding check_reg_targets_def by metis
  from assms have len: "length ra = length rp" and ne: "ra \<noteq> []"
    by (auto simp: check_reg_targets_def a p)
  have sq: "map (\<lambda>x. fl_mul x x) (map2 fl_sub a p) = map Fin (map2 (\<lambda>x y. (x - y) * (x - y)) ra rp)"
    unfolding a p using len by (induction ra rp rule: list_induct2) auto
  have ne2: "map2 (\<lambda>x y. (x - y) * (x - y)) ra rp \<noteq> []"
    using len ne by (cases rp; cases ra) auto
  have "\<forall>r\<in>set (map2 (\<lambda>x y. (x - y) * (x - y)) ra rp). 0 \<le> r" by auto
  from np_mean_nonneg [OF ne2 this]
  have "\<exists>x\<ge>0. np_mean (map (\<lambda>x. fl_mul x x) (map2 fl_sub a p)) = Fin x"
    unfolding sq .
  then obtain x where x: "0 \<le> x \<and> np_mean (map (\<lambda>x. fl_mul x x) (map2 fl_sub a p)) = Fin x" ..
  have "RMSE (metrics_of a p) = fl_sqrt (np_mean (map (\<lambda>x. fl_mul x x) (map2 fl_sub a p)))"
    unfolding metrics_of_def by simp
  with x have "RMSE (metrics_of a p) = Fin (sqrt x)" by simp
  with x show ?thesis by (intro exI [of _ "sqrt x"]) simp
qed

lemma mape_nonneg_or_nan:
  assumes "check_reg_targets a p"
  shows "(fl_nonneg (MAPE (metrics_of a p)) \<or> MAPE (metrics_of a p) = NaN) \<and>
     (MAPE (metrics_of a p) = NaN \<longrightarrow> Fin 0 \<in> set a)"
proof -
  from assms obtain ra rp where a: "a = map Fin ra" and p: "p = map Fin rp"
    using finite_list_map_Fin unfolding check_reg_targets_def by metis
  from assms have len: "length a = length p" and ne: "a \<noteq> []"
    by (auto simp: check_reg_targets_def)
  define ts where "ts = map (\<lambda>(x, y). fl_abs (fl_div (fl_sub x y) x)) (zip a p)"
  have "MAPE (metrics_of a p) =
      fl_mul (np_mean (map fl_abs (map2 fl_div (map2 fl_sub a p) a))) (Fin 100)"
    unfolding metrics_of_def by simp
  then have mape: "MAPE (metrics_of a p) = fl_mul (np_mean ts) (Fin 100)"
    unfolding mape_terms_zip [OF len] ts_def .
  have tne: "ts \<noteq> []" using len ne by (cases a; cases p) (auto simp: ts_def)
  have noninf: "NInf \<notin> set ts"
    using fl_abs_not_NInf by (auto simp: ts_def) metis
  show ?thesis
  proof (cases "Fin 0 \<in> set a")
    case True
    then obtain y where y: "(Fin 0, y) \<in> set (zip a p)"
      using len by (metis in_set_impl_in_set_zip1)
    have "fl_abs (fl_div (fl_sub (Fin 0) y) (Fin 0)) \<in> set ts"
      unfolding ts_def using y by force
    then have "\<exists>t\<in>set ts. t = NaN \<or> t = PInf"
      using mape_term_zero [of y] by auto
    from np_mean_special [OF tne noninf this] True show ?thesis
      by (auto simp: mape)
  next
    case False
    have len': "length ra = length rp" using len by (simp add: a p)
    have "0 \<notin> set ra" using False by (auto simp: a)
    with len' have eq: "ts = map Fin (map2 (\<lambda>x y. \<bar>(x - y) / x\<bar>) ra rp)"
      unfolding ts_def a p by (induction ra rp rule: list_induct2) auto
    have ne2: "map2 (\<lambda>x y. \<bar>(x - y) / x\<bar>) ra rp \<noteq> []"
      using tne eq by auto
    have "\<forall>r\<in>set (map2 (\<lambda>x y. \<bar>(x - y) / x\<bar>) ra rp). 0 \<le> r" by auto
    from np_mean_nonneg [OF ne2 this] have "\<exists>x\<ge>0. np_mean ts = Fin x"
      unfolding eq .
    then obtain x where "0 \<le> x \<and> np_mean ts = Fin x" ..
    then show ?thesis by (simp add: mape)
  qed
qed

section \<open>The end-to-end run on one entity\<close>

lemma distinct_singleton: "distinct xs \<Longrightarrow> set xs = {k} \<Longrightarrow> xs = [k]"
proof (cases xs)
  case Nil
  assume "set xs = {k}"
  with Nil show ?thesis by simp
next
  case (Cons x ys)
  assume d: "distinct xs" and s: "set xs = {k}"
  from s Cons have x: "x = k" by auto
  have "ys = []"
  proof (cases ys)
    case Nil
    then show ?thesis .
  next
    case (Cons y zs)
    with s \<open>xs = x # ys\<close> have "y = k" by auto
    with d x \<open>xs = x # ys\<close> Cons show ?thesis by simp
  qed
  with x Cons show ?thesis by simp
qed

lemma groupby_single:
  assumes "group_by ` set df = {k}"
  shows "groupby group_by df = [(k, df)]"
proof -
  have "remdups (map group_by df) = [k]"
    using assms by (intro distinct_singleton) auto
  moreover have "filter (\<lambda>r. group_by r = k) df = df"
    using assms by (auto simp: filter_id_conv)
  ultimately show ?thesis by (simp add: groupby_def)
qed

lemma preprocess_data_single:
  assumes "group_by ` set df = {k}" and "length (monthly_sales df) = 48"
  shows "preprocess_data df group_by 12 =
    ([(k, take 36 (monthly_sales df))], [(k, drop 36 (monthly_sales df))])"
  by (simp add: preprocess_data_def groupby_single [OF assms(1)] Let_def
      py_slice_to_def py_slice_from_def py_bound_def assms(2))

lemma arima_pipeline_single:
  assumes "arima_pipeline lib [(k, train)] steps = Inr forecasts"
  shows "\<exists>af. forecasts = [(k, af)] \<and> arima_pipeline_body lib train steps = Inr af"
  using assms by (auto simp: arima_pipeline_def split: sum.splits)

lemma arima_pipeline_body_forecast:
  assumes "arima_pipeline_body lib train steps = Inr af"
  shows "\<exists>model. ARIMA_forecast lib model steps = Inr af"
  using assms
  by (auto simp: arima_pipeline_body_def forecast_arima_def split: sum.splits prod.splits)

lemma prophet_pipeline_single:
  assumes "prophet_pipeline lib [(k, train)] steps = Inr forecasts"
  shows "\<exists>model rows. forecasts = [(k, rows)] \<and> Prophet_fit lib train = Inr model \<and>
     forecast_prophet lib model steps = Inr rows"
  using assms by (auto simp: prophet_pipeline_def train_prophet_def split: sum.splits)

lemma projected_count:
  assumes "map ds rows = map fst train @ future"
    and "\<forall>d\<in>set future. \<forall>h\<in>set (map fst train). h < d"
  shows "length (projected train rows) = length future"
proof -
  define P where "P = (\<lambda>d. \<forall>h\<in>set (map fst train). h < d)"
  have "length (filter (\<lambda>r. P (ds r)) rows) = length (filter P (map ds rows))"
    by (simp add: filter_map comp_def)
  also have "filter P (map ds rows) = filter P (map fst train) @ filter P future"
    by (simp add: assms(1))
  also have "filter P (map fst train) = []"
    by (auto simp: P_def filter_empty_conv)
  also have "filter P future = future"
    using assms(2) by (auto simp: P_def filter_id_conv)
  finally show ?thesis by (simp add: projected_def P_def)
qed


text \<open>
  C3. One entity whose resampled series has 48 monthly points, test horizon 12, and
  libraries that return what their interface promises (\<open>arima_contract\<close>,
  \<open>prophet_contract\<close>) without raising on this input. Then the split is 36 + 12;
  the ARIMA forecast of the entity has exactly 12 values; the Prophet frame of the
  entity has 48 rows, the 36 training dates and exactly 12 projected rows after them;
  \<open>compare_models\<close> returns exactly one row, which is also the result of the whole
  run; in that row MAE and RMSE of both models are numbers at least 0, and each MAPE
  is a number at least 0 (possibly \<open>+inf\<close>) or NaN, NaN only when some test value
  is zero.
\<close>

theorem end_to_end_48_months:
  assumes one: "product_id ` set df = {k}"
    and n48: "length (monthly_sales df) = 48"
    and ac: "arima_contract alib"
    and pc: "prophet_contract plib"
    and pre: "preprocess_data df product_id 12 = (train_data, test_data)"
    and ar: "arima_pipeline alib train_data 12 = Inr arima_forecasts"
    and pr: "prophet_pipeline plib train_data 12 = Inr prophet_forecasts"
  shows "\<exists>train test af rows row.
     train_data = [(k, train)] \<and> test_data = [(k, test)] \<and>
     length train = 36 \<and> length test = 12 \<and>
     arima_forecasts = [(k, af)] \<and> length af = 12 \<and>
     prophet_forecasts = [(k, rows)] \<and> length rows = 48 \<and>
     length (projected train rows) = 12 \<and>
     compare_models arima_forecasts prophet_forecasts test_data = Inr [row] \<and>
     forecast_and_compare alib plib df = Inr [row] \<and>
     Product_Category row = k \<and>
     (\<exists>x\<ge>0. ARIMA_MAE row = Fin x) \<and> (\<exists>x\<ge>0. ARIMA_RMSE row = Fin x) \<and>
     (fl_nonneg (ARIMA_MAPE row) \<or> ARIMA_MAPE row = NaN) \<and>
     (ARIMA_MAPE row = NaN \<longrightarrow> 0 \<in> snd ` set test) \<and>
     (\<exists>x\<ge>0. Prophet_MAE row = Fin x) \<and> (\<exists>x\<ge>0. Prophet_RMSE row = Fin x) \<and>
     (fl_nonneg (Prophet_MAPE row) \<or> Prophet_MAPE row = NaN) \<and>
     (Prophet_MAPE row = NaN \<longrightarrow> 0 \<in> snd ` set test)"
proof -
  define train where "train = take 36 (monthly_sales df)"
  define test where "test = drop 36 (monthly_sales df)"
  have td: "train_data = [(k, train)]" and ted: "test_data = [(k, test)]"
    using pre preprocess_data_single [OF one n48] by (simp_all add: train_def test_def)
  have ltrain: "length train = 36" and ltest: "length test = 12"
    using n48 by (simp_all add: train_def test_def)
  from arima_pipeline_single [OF ar [unfolded td]] obtain af
    where af: "arima_forecasts = [(k, af)]" and body: "arima_pipeline_body alib train 12 = Inr af"
    by blast
  from arima_pipeline_body_forecast [OF body] obtain model
    where "ARIMA_forecast alib model 12 = Inr af" ..
  with ac have laf: "length af = 12" and faf: "list_all is_finite af"
    unfolding arima_contract_def by fastforce+
  from prophet_pipeline_single [OF pr [unfolded td]] obtain pm rows
    where rows: "prophet_forecasts = [(k, rows)]" and fit: "Prophet_fit plib train = Inr pm"
      and fc: "forecast_prophet plib pm 12 = Inr rows"
    by blast
  from pc fit fc obtain future where fut: "map ds rows = map fst train @ future"
    "length future = 12" "\<forall>d\<in>set future. \<forall>h\<in>set (map fst train). h < d"
    and frows: "list_all (\<lambda>r. is_finite (yhat r)) rows"
    unfolding prophet_contract_def by fastforce
  have "length (map ds rows) = 48"
    unfolding fut(1) using ltrain fut(2) by simp
  then have lrows: "length rows = 48" by simp
  have proj: "length (projected train rows) = 12"
    using projected_count [OF fut(1) fut(3)] fut(2) by simp
  have act: "length (actual_values test) = 12" "list_all is_finite (actual_values test)"
    using ltest by (simp_all add: actual_values_def list_all_iff)
  have c1: "check_reg_targets (actual_values test) af"
    using act laf faf by (auto simp: check_reg_targets_def)
  have tail: "prophet_tail rows af = drop 36 (map yhat rows)"
    using lrows laf by (simp add: prophet_tail_def py_slice_from_def py_bound_def)
  have "\<forall>x\<in>set (map yhat rows). is_finite x"
    using frows by (simp add: list_all_iff)
  moreover have "set (drop 36 (map yhat rows)) \<subseteq> set (map yhat rows)"
    by (rule set_drop_subset)
  ultimately have "list_all is_finite (drop 36 (map yhat rows))"
    unfolding list_all_iff by blast
  then have c2: "check_reg_targets (actual_values test) (prophet_tail rows af)"
    using act lrows by (auto simp: check_reg_targets_def tail)
  have comp: "list_all (comparable_entity prophet_forecasts test_data) arima_forecasts"
    using c1 c2 by (simp add: comparable_entity_def af rows ted)
  define row where "row = comparison_row prophet_forecasts test_data (k, af)"
  have cm: "compare_models arima_forecasts prophet_forecasts test_data = Inr [row]"
    unfolding compare_models_def compare_models_loop_ok [OF comp]
    by (simp add: af ted row_def)
  have fac: "forecast_and_compare alib plib df = Inr [row]"
    by (simp add: forecast_and_compare_def pre ar pr cm)
  have r1: "Product_Category row = k"
    and r2: "ARIMA_MAE row = MAE (metrics_of (actual_values test) af)"
    and r3: "ARIMA_RMSE row = RMSE (metrics_of (actual_values test) af)"
    and r4: "ARIMA_MAPE row = MAPE (metrics_of (actual_values test) af)"
    and r5: "Prophet_MAE row = MAE (metrics_of (actual_values test) (prophet_tail rows af))"
    and r6: "Prophet_RMSE row = RMSE (metrics_of (actual_values test) (prophet_tail rows af))"
    and r7: "Prophet_MAPE row = MAPE (metrics_of (actual_values test) (prophet_tail rows af))"
    by (simp_all add: row_def comparison_row_def Let_def ted rows)
  have zero: "Fin 0 \<in> set (actual_values test) \<Longrightarrow> 0 \<in> snd ` set test"
    by (auto simp: actual_values_def)
  have m1: "\<exists>x\<ge>0. ARIMA_MAE row = Fin x" unfolding r2 by (rule mae_nonneg [OF c1])
  have m2: "\<exists>x\<ge>0. ARIMA_RMSE row = Fin x" unfolding r3 by (rule rmse_nonneg [OF c1])
  have m3: "(fl_nonneg (ARIMA_MAPE row) \<or> ARIMA_MAPE row = NaN) \<and>
      (ARIMA_MAPE row = NaN \<longrightarrow> 0 \<in> snd ` set test)"
    unfolding r4 using mape_nonneg_or_nan [OF c1] zero by blast
  have m4: "\<exists>x\<ge>0. Prophet_MAE row = Fin x" unfolding r5 by (rule mae_nonneg [OF c2])
  have m5: "\<exists>x\<ge>0. Prophet_RMSE row = Fin x" unfolding r6 by (rule rmse_nonneg [OF c2])
  have m6: "(fl_nonneg (Prophet_MAPE row) \<or> Prophet_MAPE row = NaN) \<and>
      (Prophet_MAPE row = NaN \<longrightarrow> 0 \<in> snd ` set test)"
    unfolding r7 using mape_nonneg_or_nan [OF c2] zero by blast
  show ?thesis
    apply (rule exI [of _ train], rule exI [of _ test], rule exI [of _ af],
        rule exI [of _ rows], rule exI [of _ row])
    using td ted ltrain ltest af laf rows lrows proj cm fac r1 m1 m2 m3 m4 m5 m6
    by blast
qed


lemma demo_48_monthly:
  "monthly_sales demo_table_48 =
     [(24240, 5), (24241, 7), (24242, 0), (24243, 0), (24244, 0), (24245, 0), (24246, 0),
     (24247, 0), (24248, 0), (24249, 0), (24250, 0), (24251, 0), (24252, 0), (24253, 0),
     (24254, 0), (24255, 0), (24256, 0), (24257, 0), (24258, 0), (24259, 0), (24260, 0),
     (24261, 0), (24262, 0), (24263, 0), (24264, 0), (24265, 0), (24266, 0), (24267, 0),
     (24268, 0), (24269, 0), (24270, 0), (24271, 0), (24272, 0), (24273, 0), (24274, 0),
     (24275, 0), (24276, 0), (24277, 0), (24278, 0), (24279, 0), (24280, 0), (24281, 0),
     (24282, 0), (24283, 0), (24284, 0), (24285, 0), (24286, 0), (24287, 6)]"
  by (simp add: monthly_sales_def resample_sum_def demo_table_48_def demo_row_def
      date_ord_def month_no_def upt_rec)

lemma demo_48_entity: "product_id ` set demo_table_48 = {7}"
  by (simp add: demo_table_48_def demo_row_def)

lemma demo_48_train_values:
  "map snd (take 36 (monthly_sales demo_table_48)) =
     [5, 7, 0, 0, 0, 0, 0, 0, 0, 0, 0, 0, 0, 0, 0, 0, 0, 0, 0, 0, 0, 0, 0, 0, 0, 0, 0, 0, 0,
     0, 0, 0, 0, 0, 0, 0]"
  unfolding demo_48_monthly by simp

lemma stub_arima_contract: "arima_contract stub_statsmodels"
  by (auto simp: arima_contract_def stub_statsmodels_def stub_forecast_def list_all_iff
      split: if_splits)

lemma stub_prophet_contract: "prophet_contract stub_prophet"
proof -
  have "\<forall>d\<in>set (map (\<lambda>i. Suc (Max (set (map fst df))) + i) [0 ..< n]).
      \<forall>h\<in>set (map fst df). h < d" for df :: frame and n
  proof (intro ballI)
    fix d h
    assume "d \<in> set (map (\<lambda>i. Suc (Max (set (map fst df))) + i) [0 ..< n])"
      and h: "h \<in> set (map fst df)"
    then have "Suc (Max (set (map fst df))) \<le> d" by auto
    moreover from h have "h \<le> Max (set (map fst df))" by (intro Max_ge) auto
    ultimately show "h < d" by simp
  qed
  then show ?thesis
    unfolding prophet_contract_def
    by (auto simp: stub_prophet_def forecast_prophet_def demo_prow_def comp_def list_all_iff
        split: if_splits)
qed

lemma demo_48_arima:
  "arima_pipeline_body stub_statsmodels (take 36 (monthly_sales demo_table_48)) 12 =
     Inr (replicate 12 (Fin 0))"
  unfolding arima_pipeline_body_def Let_def demo_48_train_values
  by (simp add: make_stationary_def make_stationary_loop.simps check_stationarity_def
      stub_statsmodels_def stub_adfuller_def diff_dropna_def train_arima_def stub_fit_def
      forecast_arima_def stub_forecast_def)


theorem end_to_end_48_months_witness:
  "product_id ` set demo_table_48 = {7} \<and> length (monthly_sales demo_table_48) = 48 \<and>
   arima_contract stub_statsmodels \<and> prophet_contract stub_prophet \<and>
   arima_pipeline stub_statsmodels (fst (preprocess_data demo_table_48 product_id 12)) 12 =
     Inr [(7, replicate 12 (Fin 0))] \<and>
   (\<exists>rows. prophet_pipeline stub_prophet (fst (preprocess_data demo_table_48 product_id 12)) 12 =
       Inr [(7, rows)] \<and>
     length rows = 48 \<and>
     length (projected (take 36 (monthly_sales demo_table_48)) rows) = 12) \<and>
   (\<exists>row. forecast_and_compare stub_statsmodels stub_prophet demo_table_48 = Inr [row] \<and>
     Product_Category row = 7 \<and>
     (\<exists>x\<ge>0. ARIMA_MAE row = Fin x) \<and> (\<exists>x\<ge>0. Prophet_RMSE row = Fin x) \<and>
     (fl_nonneg (ARIMA_MAPE row) \<or> ARIMA_MAPE row = NaN))"
proof -
  let ?ms = "monthly_sales demo_table_48"
  have n48: "length ?ms = 48"
    by (simp add: demo_48_monthly)
  have pre: "preprocess_data demo_table_48 product_id 12 =
      ([(7, take 36 ?ms)], [(7, drop 36 ?ms)])"
    by (rule preprocess_data_single [OF demo_48_entity n48])
  have ar: "arima_pipeline stub_statsmodels [(7::int, take 36 ?ms)] 12 =
      Inr [(7, replicate 12 (Fin 0))]"
    by (simp add: arima_pipeline_def demo_48_arima)
  have "take 36 ?ms \<noteq> []"
    using n48 by auto
  then obtain pf where pr: "prophet_pipeline stub_prophet [(7::int, take 36 ?ms)] 12 = Inr pf"
    by (simp add: prophet_pipeline_def train_prophet_def forecast_prophet_def stub_prophet_def)
  from end_to_end_48_months [OF demo_48_entity n48 stub_arima_contract stub_prophet_contract
      pre ar pr]
  obtain train test af rows row where
    "[(7::int, take 36 ?ms)] = [(7, train)]" "pf = [(7, rows)]" "length rows = 48"
    "length (projected train rows) = 12"
    "forecast_and_compare stub_statsmodels stub_prophet demo_table_48 = Inr [row]"
    "Product_Category row = 7"
    "\<exists>x\<ge>0. ARIMA_MAE row = Fin x" "\<exists>x\<ge>0. Prophet_RMSE row = Fin x"
    "fl_nonneg (ARIMA_MAPE row) \<or> ARIMA_MAPE row = NaN"
    by blast
  with demo_48_entity n48 stub_arima_contract stub_prophet_contract pre ar pr
  show ?thesis by auto
qed

end
